theory Spec2Isabelle
  imports Main "HOL-Library.Char_ord" "HOL-Library.List_Lexorder"
    "HOL-Library.Product_Lexorder" "HOL-Library.Sublist" "HOL-Library.Multiset"
begin

section \<open>Python values, exceptions and console effects\<close>

text \<open>
  The program of \<^verbatim>\<open>main.py\<close> works on what \<^verbatim>\<open>resp.json()\<close> returns: nested Python
  dicts, lists, strings, integers, booleans and \<^verbatim>\<open>None\<close>. A dict is an association list
  in insertion order, read with \<open>map_of\<close>. Strings are lists of 8-bit characters, so the
  model is exact on ASCII text: case mapping, white space and padding of characters beyond
  ASCII are not modelled. Numbers are Python ints; a JSON number with a fraction is outside
  the model.
\<close>

datatype json =
    JNull
  | JBool bool
  | JInt int
  | JStr string
  | JArr "json list"
  | JObj "(string \<times> json) list"

text \<open>
  Every exception that the source raises, or that a Python operation of the source raises
  on a value of the wrong shape, is a value. \<open>SystemExit n\<close> is \<^verbatim>\<open>sys.exit(n)\<close>,
  \<open>HTTPError c\<close> is what \<^verbatim>\<open>raise_for_status\<close> raises on status \<open>c\<close>, \<open>RequestException\<close>
  is a failed or timed-out request and \<open>JSONDecodeError\<close> a body that is not JSON.
\<close>

datatype error =
    AttributeError
  | TypeError
  | KeyError
  | IndexError
  | ValueError
  | EOFError
  | JSONDecodeError
  | RequestException
  | HTTPError int
  | SystemExit int

text \<open>
  The exit status of the process: \<^verbatim>\<open>sys.exit(n)\<close> gives \<open>n\<close>, an exception that nobody
  catches makes the interpreter exit with status 1, a normal return gives 0.
\<close>

fun exit_status :: "error + 'a \<Rightarrow> int" where
  "exit_status (Inl (SystemExit n)) = n"
| "exit_status (Inl _) = 1"
| "exit_status (Inr _) = 0"

text \<open>
  What the process does to the outside, in order: a line printed on standard output, a
  line printed on the error stream, a prompt written by \<^verbatim>\<open>input\<close> or \<^verbatim>\<open>getpass\<close>, and a
  file written with its whole content.
\<close>

datatype event =
    Stdout string
  | Stderr string
  | Prompt string
  | FileWrite string string

type_synonym 'a io = "event list \<times> (error + 'a)"

definition io_bind :: "'a io \<Rightarrow> ('a \<Rightarrow> 'b io) \<Rightarrow> 'b io" where
  "io_bind m f =
     (case m of
        (out, Inl e) \<Rightarrow> (out, Inl e)
      | (out, Inr x) \<Rightarrow> (case f x of (out', r) \<Rightarrow> (out @ out', r)))"

definition bnd :: "error + 'a \<Rightarrow> ('a \<Rightarrow> error + 'b) \<Rightarrow> error + 'b" where
  "bnd m f = (case m of Inl e \<Rightarrow> Inl e | Inr x \<Rightarrow> f x)"

subsection \<open>Strings\<close>

text \<open>
  \<^verbatim>\<open>str.strip()\<close> removes white space at both ends; on ASCII that is the space, the
  characters 9 to 13 and the separators 28 to 31.
\<close>

definition py_isspace :: "char \<Rightarrow> bool" where
  "py_isspace c =
     (let n = (of_char c :: nat) in n = 32 \<or> (9 \<le> n \<and> n \<le> 13) \<or> (28 \<le> n \<and> n \<le> 31))"

definition py_strip :: "string \<Rightarrow> string" where
  "py_strip s = rev (dropWhile py_isspace (rev (dropWhile py_isspace s)))"

text \<open>
  \<^verbatim>\<open>str.lower()\<close> on ASCII text: the letters A to Z become a to z and every other
  character is kept. On text with characters beyond ASCII the method follows the Unicode
  tables and is not this map, so every property of the country filter below is stated for
  ASCII text. \<^verbatim>\<open>a in b\<close> on two strings: \<open>a\<close> occurs in \<open>b\<close> as a contiguous piece.
\<close>

definition lower_char :: "char \<Rightarrow> char" where
  "lower_char c =
     (let n = (of_char c :: nat) in if 65 \<le> n \<and> n \<le> 90 then char_of (n + 32) else c)"

definition py_lower :: "string \<Rightarrow> string" where
  "py_lower s = map lower_char s"

fun py_in :: "string \<Rightarrow> string \<Rightarrow> bool" where
  "py_in a [] = (a = [])"
| "py_in a (c # cs) = (prefix a (c # cs) \<or> py_in a cs)"

subsection \<open>Operations on values\<close>

text \<open>Truth value of an object, as \<^verbatim>\<open>if x:\<close>, \<^verbatim>\<open>not x\<close> and \<^verbatim>\<open>x or y\<close> take it.\<close>

fun truthy :: "json \<Rightarrow> bool" where
  "truthy JNull = False"
| "truthy (JBool b) = b"
| "truthy (JInt i) = (i \<noteq> 0)"
| "truthy (JStr s) = (s \<noteq> [])"
| "truthy (JArr xs) = (xs \<noteq> [])"
| "truthy (JObj kvs) = (kvs \<noteq> [])"

text \<open>
  \<^verbatim>\<open>x.get(key, default)\<close>: only a dict has the method; \<^verbatim>\<open>x.get(key)\<close> is the call with
  default \<open>JNull\<close>.
\<close>

fun dict_get :: "json \<Rightarrow> string \<Rightarrow> json \<Rightarrow> error + json" where
  "dict_get (JObj kvs) k d = Inr (case map_of kvs k of Some v \<Rightarrow> v | None \<Rightarrow> d)"
| "dict_get _ k d = Inl AttributeError"

text \<open>
  \<^verbatim>\<open>x[0]\<close>: the first element of a list, the first character of a string; a dict read
  from JSON has string keys only, so the key 0 is missing; nothing else has subscripts.
\<close>

fun getitem0 :: "json \<Rightarrow> error + json" where
  "getitem0 (JArr (x # xs)) = Inr x"
| "getitem0 (JArr []) = Inl IndexError"
| "getitem0 (JStr (c # cs)) = Inr (JStr [c])"
| "getitem0 (JStr []) = Inl IndexError"
| "getitem0 (JObj kvs) = Inl KeyError"
| "getitem0 _ = Inl TypeError"

text \<open>
  \<^verbatim>\<open>for t in x\<close>: the elements of a list, the characters of a string, the keys of a dict;
  nothing else can be iterated.
\<close>

fun py_iter :: "json \<Rightarrow> error + json list" where
  "py_iter (JArr xs) = Inr xs"
| "py_iter (JStr s) = Inr (map (\<lambda>c. JStr [c]) s)"
| "py_iter (JObj kvs) = Inr (map (\<lambda>k. JStr k) (remdups (map fst kvs)))"
| "py_iter _ = Inl TypeError"

text \<open>
  \<^verbatim>\<open>a == b\<close>. A bool is an int (\<^verbatim>\<open>True == 1\<close>); lists are equal elementwise; two dicts
  are equal when each holds the items of the other. Equality never raises.
\<close>

fun num_of :: "json \<Rightarrow> int option" where
  "num_of (JBool b) = Some (if b then 1 else 0)"
| "num_of (JInt i) = Some i"
| "num_of _ = None"

function (sequential) py_eq :: "json \<Rightarrow> json \<Rightarrow> bool"
  and py_eq_list :: "json list \<Rightarrow> json list \<Rightarrow> bool"
  and py_eq_items :: "(string \<times> json) list \<Rightarrow> (string \<times> json) list \<Rightarrow> bool"
  and py_eq_lookup :: "json \<Rightarrow> string \<Rightarrow> (string \<times> json) list \<Rightarrow> bool" where
  "py_eq JNull JNull = True"
| "py_eq (JStr s) (JStr t) = (s = t)"
| "py_eq (JArr xs) (JArr ys) = py_eq_list xs ys"
| "py_eq (JObj kvs) (JObj kws) = (py_eq_items kvs kws \<and> py_eq_items kws kvs)"
| "py_eq a b = (case (num_of a, num_of b) of (Some i, Some j) \<Rightarrow> i = j | _ \<Rightarrow> False)"
| "py_eq_list [] [] = True"
| "py_eq_list (x # xs) (y # ys) = (py_eq x y \<and> py_eq_list xs ys)"
| "py_eq_list _ _ = False"
| "py_eq_items [] kws = True"
| "py_eq_items ((k, v) # kvs) kws = (py_eq_lookup v k kws \<and> py_eq_items kvs kws)"
| "py_eq_lookup v k [] = False"
| "py_eq_lookup v k ((k', w) # kws) = (if k = k' then py_eq v w else py_eq_lookup v k kws)"
  by pat_completeness auto
termination
  by (relation "measure (\<lambda>x. case x of
        Inl (Inl (a, b)) \<Rightarrow> size a + size b
      | Inl (Inr (xs, ys)) \<Rightarrow> size_list size xs + size_list size ys
      | Inr (Inl (kvs, kws)) \<Rightarrow>
          size_list (size_prod (\<lambda>_. 0) size) kvs + size_list (size_prod (\<lambda>_. 0) size) kws
      | Inr (Inr (v, k, kws)) \<Rightarrow> size v + size_list (size_prod (\<lambda>_. 0) size) kws)") auto

text \<open>
  \<^verbatim>\<open>a < b\<close>. Strings are ordered by code point, ints and bools by value, and lists (and
  tuples) by their first pair of unequal elements, a proper prefix being smaller. Every
  other pair, \<^verbatim>\<open>None\<close> and dicts among them, raises \<^verbatim>\<open>TypeError\<close>.
\<close>

function (sequential) py_lt :: "json \<Rightarrow> json \<Rightarrow> error + bool"
  and py_lt_list :: "json list \<Rightarrow> json list \<Rightarrow> error + bool" where
  "py_lt (JStr s) (JStr t) = Inr (s < t)"
| "py_lt (JArr xs) (JArr ys) = py_lt_list xs ys"
| "py_lt a b = (case (num_of a, num_of b) of (Some i, Some j) \<Rightarrow> Inr (i < j) | _ \<Rightarrow> Inl TypeError)"
| "py_lt_list [] [] = Inr False"
| "py_lt_list [] (y # ys) = Inr True"
| "py_lt_list (x # xs) [] = Inr False"
| "py_lt_list (x # xs) (y # ys) = (if py_eq x y then py_lt_list xs ys else py_lt x y)"
  by pat_completeness auto
termination
  by (relation "measure (\<lambda>x. case x of
        Inl (a, b) \<Rightarrow> size a + size b
      | Inr (xs, ys) \<Rightarrow> size_list size xs + size_list size ys)") auto

section \<open>Text: \<^verbatim>\<open>str\<close>, \<^verbatim>\<open>repr\<close>, format specifications, \<^verbatim>\<open>int\<close>\<close>

abbreviation NL :: char where
  "NL \<equiv> CHR 0x0A"

text \<open>The decimal digits of a natural number, and \<^verbatim>\<open>str\<close> of an int.\<close>

fun dec_nat :: "nat \<Rightarrow> string" where
  "dec_nat n =
     (if n < 10 then [''0123456789'' ! n]
      else dec_nat (n div 10) @ [''0123456789'' ! (n mod 10)])"

declare dec_nat.simps [simp del]

definition str_int :: "int \<Rightarrow> string" where
  "str_int i = (if i < 0 then ''-'' @ dec_nat (nat (- i)) else dec_nat (nat i))"

text \<open>
  \<^verbatim>\<open>repr\<close> of a string: single quotes, unless the string holds a single quote and no
  double quote; the quote and the backslash are escaped with a backslash, tab, newline and
  carriage return are written \<^verbatim>\<open>\t\<close>, \<^verbatim>\<open>\n\<close>, \<^verbatim>\<open>\r\<close>, the other control characters
  \<^verbatim>\<open>\xhh\<close>.
\<close>

definition repr_char :: "char \<Rightarrow> char \<Rightarrow> string" where
  "repr_char q c =
     (let n = (of_char c :: nat) in
      if c = q \<or> c = CHR 0x5C then [CHR 0x5C, c]
      else if n = 9 then [CHR 0x5C, CHR ''t'']
      else if n = 10 then [CHR 0x5C, CHR ''n'']
      else if n = 13 then [CHR 0x5C, CHR ''r'']
      else if n < 32 \<or> n = 127 then
        [CHR 0x5C, CHR ''x'', ''0123456789abcdef'' ! (n div 16), ''0123456789abcdef'' ! (n mod 16)]
      else [c])"

definition repr_str :: "string \<Rightarrow> string" where
  "repr_str s =
     (let q = (if CHR 0x27 \<in> set s \<and> CHR 0x22 \<notin> set s then CHR 0x22 else CHR 0x27)
      in [q] @ concat (map (repr_char q) s) @ [q])"

fun py_join :: "string \<Rightarrow> string list \<Rightarrow> string" where
  "py_join sep [] = []"
| "py_join sep [x] = x"
| "py_join sep (x # y # ys) = x @ sep @ py_join sep (y # ys)"

fun py_repr :: "json \<Rightarrow> string"
  and py_repr_list :: "json list \<Rightarrow> string list"
  and py_repr_items :: "(string \<times> json) list \<Rightarrow> string list" where
  "py_repr JNull = ''None''"
| "py_repr (JBool b) = (if b then ''True'' else ''False'')"
| "py_repr (JInt i) = str_int i"
| "py_repr (JStr s) = repr_str s"
| "py_repr (JArr xs) = ''['' @ py_join '', '' (py_repr_list xs) @ '']''"
| "py_repr (JObj kvs) = ''{'' @ py_join '', '' (py_repr_items kvs) @ ''}''"
| "py_repr_list [] = []"
| "py_repr_list (x # xs) = py_repr x # py_repr_list xs"
| "py_repr_items [] = []"
| "py_repr_items ((k, v) # kvs) = (repr_str k @ '': '' @ py_repr v) # py_repr_items kvs"

text \<open>\<^verbatim>\<open>str(x)\<close>, which is also what a replacement field without a format takes.\<close>

fun py_str :: "json \<Rightarrow> string" where
  "py_str (JStr s) = s"
| "py_str v = py_repr v"

text \<open>
  A replacement field with a width and an alignment, \<^verbatim>\<open>{x:<15}\<close> or \<^verbatim>\<open>{x:>3}\<close>: a string is
  padded with spaces; an int, and a bool as the int it is, is written in decimal and padded;
  \<^verbatim>\<open>None\<close>, a list and a dict accept no format and raise \<^verbatim>\<open>TypeError\<close>.
\<close>

definition ljust :: "nat \<Rightarrow> string \<Rightarrow> string" where
  "ljust w s = s @ replicate (w - length s) CHR '' ''"

definition rjust :: "nat \<Rightarrow> string \<Rightarrow> string" where
  "rjust w s = replicate (w - length s) CHR '' '' @ s"

fun format_left :: "nat \<Rightarrow> json \<Rightarrow> error + string" where
  "format_left w (JStr s) = Inr (ljust w s)"
| "format_left w (JInt i) = Inr (ljust w (str_int i))"
| "format_left w (JBool b) = Inr (ljust w (str_int (if b then 1 else 0)))"
| "format_left w _ = Inl TypeError"

fun format_right :: "nat \<Rightarrow> json \<Rightarrow> error + string" where
  "format_right w (JStr s) = Inr (rjust w s)"
| "format_right w (JInt i) = Inr (rjust w (str_int i))"
| "format_right w (JBool b) = Inr (rjust w (str_int (if b then 1 else 0)))"
| "format_right w _ = Inl TypeError"

text \<open>
  \<^verbatim>\<open>int(s)\<close> on a string: white space around the number is ignored, a sign may come first,
  and single underscores may stand between digits; everything else is a \<^verbatim>\<open>ValueError\<close>
  (\<open>None\<close>). The limit that newer interpreters put on the number of digits is not modelled.
\<close>

definition digit_val :: "char \<Rightarrow> nat option" where
  "digit_val c =
     (let n = (of_char c :: nat) in if 48 \<le> n \<and> n \<le> 57 then Some (n - 48) else None)"

fun parse_digits :: "nat \<Rightarrow> string \<Rightarrow> nat option" where
  "parse_digits acc [] = Some acc"
| "parse_digits acc [c] = map_option (\<lambda>d. 10 * acc + d) (digit_val c)"
| "parse_digits acc (c # d # cs) =
     (if c = CHR ''_'' then
        (case digit_val d of None \<Rightarrow> None | Some v \<Rightarrow> parse_digits (10 * acc + v) cs)
      else
        (case digit_val c of None \<Rightarrow> None | Some v \<Rightarrow> parse_digits (10 * acc + v) (d # cs)))"

fun parse_nat :: "string \<Rightarrow> nat option" where
  "parse_nat [] = None"
| "parse_nat (c # cs) = (case digit_val c of None \<Rightarrow> None | Some v \<Rightarrow> parse_digits v cs)"

definition py_int :: "string \<Rightarrow> int option" where
  "py_int s =
     (case py_strip s of
        c # cs \<Rightarrow>
          if c = CHR ''-'' then map_option (\<lambda>n. - int n) (parse_nat cs)
          else if c = CHR ''+'' then map_option int (parse_nat cs)
          else map_option int (parse_nat (c # cs))
      | [] \<Rightarrow> None)"

section \<open>The token: \<^verbatim>\<open>get_token\<close>\<close>

text \<open>
  \<^verbatim>\<open>if cmd_token:\<close> holds for a string that is not \<^verbatim>\<open>None\<close> and not empty, and the test
  comes before \<^verbatim>\<open>strip()\<close>. The second argument is \<^verbatim>\<open>os.getenv("NORD_ACCESS_TOKEN")\<close>,
  the third the line that \<^verbatim>\<open>getpass\<close> reads (\<open>None\<close> at end of input).
\<close>

fun get_token :: "string option \<Rightarrow> string option \<Rightarrow> string option \<Rightarrow> string io" where
  "get_token (Some (c # cs)) env_token tty = ([], Inr (py_strip (c # cs)))"
| "get_token cmd_token (Some (c # cs)) tty = ([], Inr (py_strip (c # cs)))"
| "get_token cmd_token env_token None =
     ([Stdout ''Enter your NordVPN access token (input hidden):'', Prompt ''> ''],
      Inl EOFError)"
| "get_token cmd_token env_token (Some line) =
     (let token = py_strip line in
      if token = [] then
        ([Stdout ''Enter your NordVPN access token (input hidden):'', Prompt ''> '',
          Stderr ''No token provided, exiting.''],
         Inl (SystemExit 1))
      else
        ([Stdout ''Enter your NordVPN access token (input hidden):'', Prompt ''> ''],
         Inr token))"

section \<open>The server catalogue: \<^verbatim>\<open>extract_wireguard_servers\<close>\<close>

text \<open>
  The dict that the loop appends has eight fixed keys, so it is a record. Its values are
  whatever the raw entry holds: \<^verbatim>\<open>s.get("name")\<close> is \<open>JNull\<close> when the key is missing.
  The field \<open>server_id\<close> is the key \<^verbatim>\<open>"id"\<close>.
\<close>

record server =
  server_id :: json
  name :: json
  hostname :: json
  ip :: json
  load :: json
  country :: json
  city :: json
  public_key :: json

text \<open>
  The two inner loops stop at the first match. \<open>JNull\<close> is the \<^verbatim>\<open>None\<close> that \<^verbatim>\<open>wg_tech\<close>
  and \<^verbatim>\<open>public_key\<close> start with.
\<close>

fun find_tech :: "json list \<Rightarrow> error + json" where
  "find_tech [] = Inr JNull"
| "find_tech (t # ts) =
     bnd (dict_get t ''identifier'' JNull) (\<lambda>i.
       if i = JStr ''wireguard_udp'' then Inr t else find_tech ts)"

fun find_public_key :: "json list \<Rightarrow> error + json" where
  "find_public_key [] = Inr JNull"
| "find_public_key (md # mds) =
     bnd (dict_get md ''name'' JNull) (\<lambda>n.
       if n = JStr ''public_key'' then dict_get md ''value'' JNull
       else find_public_key mds)"

text \<open>
  \<^verbatim>\<open>country_filter and country_filter.lower() not in country.lower()\<close>: without a filter,
  or with the empty one, \<^verbatim>\<open>country\<close> is not touched; otherwise it must be a string.
\<close>

fun country_rejected :: "string option \<Rightarrow> json \<Rightarrow> error + bool" where
  "country_rejected None c = Inr False"
| "country_rejected (Some []) c = Inr False"
| "country_rejected (Some f) (JStr c) = Inr (\<not> py_in (py_lower f) (py_lower c))"
| "country_rejected (Some f) _ = Inl AttributeError"

text \<open>
  The body of the loop over \<^verbatim>\<open>all_servers\<close>, in the order of the source: \<open>Inr None\<close> is
  \<^verbatim>\<open>continue\<close>, \<open>Inr (Some r)\<close> is the record that is appended.
\<close>

definition extract_entry :: "string option \<Rightarrow> json \<Rightarrow> error + server option" where
  "extract_entry country_filter s =
     bnd (dict_get s ''status'' JNull) (\<lambda>status.
     if status \<noteq> JStr ''online'' then Inr None else
     bnd (dict_get s ''locations'' JNull) (\<lambda>l.
     let locations = (if truthy l then l else JArr []) in
     if \<not> truthy locations then Inr None else
     bnd (getitem0 locations) (\<lambda>loc.
     bnd (dict_get loc ''country'' (JObj [])) (\<lambda>c.
     bnd (dict_get c ''name'' (JStr ''Unknown'')) (\<lambda>country'.
     bnd (getitem0 locations) (\<lambda>loc'.
     bnd (dict_get loc' ''country'' (JObj [])) (\<lambda>c'.
     bnd (dict_get c' ''city'' (JObj [])) (\<lambda>ci.
     bnd (dict_get ci ''name'' (JStr [])) (\<lambda>city'.
     bnd (country_rejected country_filter country') (\<lambda>rejected.
     if rejected then Inr None else
     bnd (dict_get s ''technologies'' (JArr [])) (\<lambda>techs.
     bnd (py_iter techs) (\<lambda>ts.
     bnd (find_tech ts) (\<lambda>wg_tech.
     if \<not> truthy wg_tech then Inr None else
     bnd (dict_get wg_tech ''metadata'' (JArr [])) (\<lambda>metadata.
     bnd (py_iter metadata) (\<lambda>mds.
     bnd (find_public_key mds) (\<lambda>public_key'.
     if \<not> truthy public_key' then Inr None else
     bnd (dict_get s ''id'' JNull) (\<lambda>id'.
     bnd (dict_get s ''name'' JNull) (\<lambda>name'.
     bnd (dict_get s ''hostname'' JNull) (\<lambda>hostname'.
     bnd (dict_get s ''station'' JNull) (\<lambda>station.
     bnd (dict_get s ''load'' JNull) (\<lambda>load'.
     Inr (Some \<lparr>server_id = id', name = name', hostname = hostname', ip = station,
                 load = load', country = country', city = city',
                 public_key = public_key'\<rparr>))))))))))))))))))))))"

fun extract_loop :: "string option \<Rightarrow> json list \<Rightarrow> error + server list" where
  "extract_loop country_filter [] = Inr []"
| "extract_loop country_filter (s # rest) =
     bnd (extract_entry country_filter s) (\<lambda>r.
     bnd (extract_loop country_filter rest) (\<lambda>servers.
       Inr (case r of None \<Rightarrow> servers | Some x \<Rightarrow> x # servers)))"

text \<open>
  \<^verbatim>\<open>servers.sort(key=lambda x: (x["country"], x["city"], x["name"]))\<close>. The key is a
  tuple, compared like a list. \<^verbatim>\<open>list.sort\<close> is stable and compares keys with \<^verbatim>\<open><\<close>
  only; it is modelled as the stable insertion sort that places each element, from left to
  right, into the sorted part before it, asking \<^verbatim>\<open>key(new) < key(old)\<close>. When every pair
  of keys can be compared this is the list that CPython returns. When some keys cannot be
  compared (a name that is \<^verbatim>\<open>None\<close> beside a name that is a string), CPython raises
  \<^verbatim>\<open>TypeError\<close> as soon as its own sequence of comparisons meets such a pair, which need
  not be the pair this model meets first.
\<close>

definition sort_tuple :: "server \<Rightarrow> json list" where
  "sort_tuple x = [country x, city x, name x]"

fun py_insort :: "server \<Rightarrow> server list \<Rightarrow> error + server list" where
  "py_insort x [] = Inr [x]"
| "py_insort x (y # ys) =
     bnd (py_lt_list (sort_tuple x) (sort_tuple y)) (\<lambda>less.
       if less then Inr (x # y # ys)
       else bnd (py_insort x ys) (\<lambda>zs. Inr (y # zs)))"

fun py_sort_from :: "server list \<Rightarrow> server list \<Rightarrow> error + server list" where
  "py_sort_from sorted_part [] = Inr sorted_part"
| "py_sort_from sorted_part (x # xs) =
     bnd (py_insort x sorted_part) (\<lambda>sorted_part'. py_sort_from sorted_part' xs)"

definition py_sort :: "server list \<Rightarrow> error + server list" where
  "py_sort servers = py_sort_from [] servers"

definition extract_wireguard_servers :: "json \<Rightarrow> string option \<Rightarrow> error + server list" where
  "extract_wireguard_servers all_servers country_filter =
     bnd (py_iter all_servers) (\<lambda>entries.
     bnd (extract_loop country_filter entries) (\<lambda>servers.
     py_sort servers))"

section \<open>The private key: \<^verbatim>\<open>fetch_nordlynx_private_key\<close>\<close>

text \<open>
  What \<^verbatim>\<open>requests.get\<close> returns: the status code and what \<^verbatim>\<open>resp.json()\<close> gives, the
  parsed body or the error of a body that is not JSON. \<^verbatim>\<open>raise_for_status\<close> raises on the
  client and server errors, 400 to 599.
\<close>

record response =
  status_code :: int
  json_body :: "error + json"

definition raise_for_status :: "response \<Rightarrow> error + unit" where
  "raise_for_status resp =
     (if 400 \<le> status_code resp \<and> status_code resp < 600 then Inl (HTTPError (status_code resp))
      else Inr ())"

text \<open>
  The first argument is the credentials endpoint: for a token, the response of the request
  or the exception of a request that fails or times out.
\<close>

definition fetch_nordlynx_private_key :: "(string \<Rightarrow> error + response) \<Rightarrow> string \<Rightarrow> json io" where
  "fetch_nordlynx_private_key credentials token =
     (case credentials token of
        Inl e \<Rightarrow> ([], Inl e)
      | Inr resp \<Rightarrow>
          if status_code resp = 401 then
            ([Stderr ''Unauthorized: your access token is invalid or expired.''],
             Inl (SystemExit 1))
          else
            (case raise_for_status resp of
               Inl e \<Rightarrow> ([], Inl e)
             | Inr _ \<Rightarrow>
                 (case json_body resp of
                    Inl e \<Rightarrow> ([], Inl e)
                  | Inr data \<Rightarrow>
                      (case dict_get data ''nordlynx_private_key'' JNull of
                         Inl e \<Rightarrow> ([], Inl e)
                       | Inr key \<Rightarrow>
                           if \<not> truthy key then
                             ([Stderr ''Could not find 'nordlynx_private_key' in credentials response.'',
                               Stderr ''Full response was:'',
                               Stderr (py_str data)],
                              Inl (SystemExit 1))
                           else ([], Inr key)))))"

section \<open>The server list: \<^verbatim>\<open>fetch_servers\<close>\<close>

definition fetch_servers :: "error + response \<Rightarrow> string option \<Rightarrow> error + server list" where
  "fetch_servers servers_endpoint country_filter =
     bnd servers_endpoint (\<lambda>resp.
     bnd (raise_for_status resp) (\<lambda>_.
     bnd (json_body resp) (\<lambda>data.
     extract_wireguard_servers data country_filter)))"

section \<open>The selection: \<^verbatim>\<open>choose_server\<close>\<close>

text \<open>
  \<^verbatim>\<open>servers[:max_to_show]\<close>: a bound that is not negative cuts after that many elements, a
  negative bound counts from the end of the list.
\<close>

definition py_slice_to :: "'a list \<Rightarrow> int \<Rightarrow> 'a list" where
  "py_slice_to xs m = (if m < 0 then take (nat (int (length xs) + m)) xs else take (nat m) xs)"

text \<open>
  One line of the table. The fields are formatted from left to right, and the first one
  that accepts no format specification raises before anything of the line is printed.
\<close>

definition format_row :: "nat \<Rightarrow> server \<Rightarrow> error + string" where
  "format_row idx s =
     bnd (format_left 15 (country s)) (\<lambda>country'.
     bnd (format_left 15 (city s)) (\<lambda>city'.
     bnd (format_left 20 (name s)) (\<lambda>name'.
     bnd (format_left 22 (hostname s)) (\<lambda>hostname'.
     bnd (format_right 3 (load s)) (\<lambda>load'.
       Inr (''['' @ rjust 3 (dec_nat idx) @ ''] '' @ country' @ '' '' @ city' @ '' ''
            @ name' @ '' '' @ hostname' @ '' load='' @ load' @ ''%  ip='' @ py_str (ip s)))))))"

fun print_rows :: "nat \<Rightarrow> server list \<Rightarrow> unit io" where
  "print_rows idx [] = ([], Inr ())"
| "print_rows idx (s # rest) =
     (case format_row idx s of
        Inl e \<Rightarrow> ([], Inl e)
      | Inr line \<Rightarrow> io_bind ([Stdout line], Inr ()) (\<lambda>_. print_rows (Suc idx) rest))"

text \<open>
  The \<^verbatim>\<open>while True\<close> loop reads one line of standard input in each round, so it is a
  recursion on the lines that standard input still holds; at the end of input \<^verbatim>\<open>input\<close>
  raises \<^verbatim>\<open>EOFError\<close>, which the loop does not catch.
\<close>

definition select_prompt :: "server list \<Rightarrow> string" where
  "select_prompt to_show = ''Select server [1-'' @ dec_nat (length to_show) @ '']: ''"

fun select_loop :: "server list \<Rightarrow> string list \<Rightarrow> server io" where
  "select_loop to_show [] = ([Prompt (select_prompt to_show)], Inl EOFError)"
| "select_loop to_show (line # rest) =
     (case py_int (py_strip line) of
        None \<Rightarrow>
          io_bind ([Prompt (select_prompt to_show), Stdout ''Please enter a number.''], Inr ())
            (\<lambda>_. select_loop to_show rest)
      | Some choice \<Rightarrow>
          if 1 \<le> choice \<and> choice \<le> int (length to_show) then
            ([Prompt (select_prompt to_show)], Inr (to_show ! nat (choice - 1)))
          else
            io_bind ([Prompt (select_prompt to_show), Stdout ''Out of range, try again.''], Inr ())
              (\<lambda>_. select_loop to_show rest))"

definition choose_server :: "server list \<Rightarrow> int \<Rightarrow> string list \<Rightarrow> server io" where
  "choose_server servers max_to_show stdin =
     (if servers = [] then
        ([Stderr ''No matching WireGuard servers found.''], Inl (SystemExit 1))
      else
        io_bind
          ([Stdout [],
            Stdout (''Found '' @ dec_nat (length servers) @ '' WireGuard-capable servers.''),
            Stdout (''Showing up to '' @ str_int max_to_show),
            Stdout []], Inr ()) (\<lambda>_.
        let to_show = py_slice_to servers max_to_show in
        io_bind (print_rows 1 to_show) (\<lambda>_.
        io_bind ([Stdout []], Inr ()) (\<lambda>_.
        select_loop to_show stdin))))"

section \<open>The configuration text: \<^verbatim>\<open>build_wireguard_config\<close>\<close>

text \<open>
  \<^verbatim>\<open>textwrap.dedent\<close>, as the standard library defines it up to Python 3.13: the text is
  taken line by line (split at newlines); a line of spaces and tabs only becomes empty; the
  margin is the longest run of spaces and tabs that starts every line that holds another
  character; the margin is removed from the lines that start with it.
\<close>

definition is_indent :: "char \<Rightarrow> bool" where
  "is_indent c = (c = CHR '' '' \<or> c = CHR 0x09)"

fun split_lines :: "string \<Rightarrow> string list" where
  "split_lines [] = [[]]"
| "split_lines (c # cs) =
     (if c = NL then [] # split_lines cs
      else (case split_lines cs of [] \<Rightarrow> [[c]] | l # ls \<Rightarrow> (c # l) # ls))"

fun common_margin :: "string list \<Rightarrow> string" where
  "common_margin [] = []"
| "common_margin [i] = i"
| "common_margin (i # j # is) = common_margin (longest_common_prefix i j # is)"

definition dedent :: "string \<Rightarrow> string" where
  "dedent text' =
     (let lines = map (\<lambda>l. if list_all is_indent l then [] else l) (split_lines text');
          indents = map (takeWhile is_indent) (filter (\<lambda>l. \<not> list_all is_indent l) lines);
          margin = common_margin indents
      in py_join [NL]
           (map (\<lambda>l. if margin \<noteq> [] \<and> prefix margin l then drop (length margin) l else l) lines))"

definition build_wireguard_config :: "json \<Rightarrow> server \<Rightarrow> string" where
  "build_wireguard_config private_key' server' =
     (let address = ''10.5.0.2/32'';
          dns = ''103.86.96.100, 103.86.99.100''
      in py_strip (dedent
           (''\<newline>        [Interface]\<newline>        PrivateKey = '' @ py_str private_key'
            @ ''\<newline>        Address    = '' @ address
            @ ''\<newline>        DNS        = '' @ dns
            @ ''\<newline>\<newline>        [Peer]\<newline>        PublicKey           = ''
            @ py_str (public_key server')
            @ ''\<newline>        AllowedIPs         = 0.0.0.0/0, ::/0\<newline>        Endpoint           = ''
            @ py_str (ip server')
            @ '':51820\<newline>        PersistentKeepalive = 25\<newline>        ''))
         @ ''\<newline>'')"

section \<open>The entry point: \<^verbatim>\<open>main\<close>\<close>

text \<open>
  The parsed command line, and everything of the outside that a run reads: the environment
  variable, the line typed at the hidden prompt, the two endpoints and standard input.
  Opening the output file and writing it is one event and is taken to succeed: a full disk
  or a path that cannot be written is outside the model.
\<close>

record args =
  arg_token :: "string option"
  arg_country :: "string option"
  arg_max :: int
  arg_output :: "string option"

record world =
  env_token :: "string option"
  tty_line :: "string option"
  credentials_endpoint :: "string \<Rightarrow> error + response"
  servers_endpoint :: "error + response"
  stdin_lines :: "string list"

definition io_print :: "string \<Rightarrow> unit io" where
  "io_print line = ([Stdout line], Inr ())"

definition io_lift :: "error + 'a \<Rightarrow> 'a io" where
  "io_lift r = ([], r)"

definition main :: "args \<Rightarrow> world \<Rightarrow> unit io" where
  "main a w =
     io_bind (get_token (arg_token a) (env_token w) (tty_line w)) (\<lambda>token.
     io_bind (io_print ''Fetching NordLynx private key...'') (\<lambda>_.
     io_bind (fetch_nordlynx_private_key (credentials_endpoint w) token) (\<lambda>private_key'.
     io_bind (io_print ''Fetching server list (this may take a few seconds)...'') (\<lambda>_.
     io_bind (io_lift (fetch_servers (servers_endpoint w) (arg_country a))) (\<lambda>servers.
     io_bind (choose_server servers (arg_max a) (stdin_lines w)) (\<lambda>server'.
     let config_text = build_wireguard_config private_key' server';
         filename = (case arg_output a of
                       Some (c # cs) \<Rightarrow> c # cs
                     | _ \<Rightarrow> py_str (hostname server') @ ''.conf'')
     in ([FileWrite filename config_text,
          Stdout [],
          Stdout (''Saved WireGuard config to: '' @ filename),
          Stdout (''  Server:  '' @ py_str (name server') @ '' ('' @ py_str (hostname server') @ '')''),
          Stdout (''  Country: '' @ py_str (country server') @ '', '' @ py_str (city server'))],
         Inr ())))))))"

section \<open>The vocabulary of the specification\<close>

text \<open>
  The conditions of the specification on a raw entry, in its own words: \<open>field s k\<close> is the
  value of the key \<open>k\<close> of the object \<open>s\<close>; an entry is online, has at least one location,
  and has a technology with identifier \<^verbatim>\<open>wireguard_udp\<close> whose metadata carry a value \<open>v\<close>
  under the name \<^verbatim>\<open>public_key\<close>; a value is non-empty when it is not \<^verbatim>\<open>None\<close>, not the
  empty string, list or dict. \<open>key_le a b\<close> says that \<open>a\<close> does not sort after \<open>b\<close>: the
  comparison \<^verbatim>\<open>key(b) < key(a)\<close> is defined and false. \<open>appended\<close> lists the records of the
  entries that the loop body accepts, in the order of the entries.
\<close>

definition field :: "json \<Rightarrow> string \<Rightarrow> json option" where
  "field s k = (case s of JObj kvs \<Rightarrow> map_of kvs k | _ \<Rightarrow> None)"

definition is_online :: "json \<Rightarrow> bool" where
  "is_online s = (field s ''status'' = Some (JStr ''online''))"

definition has_location :: "json \<Rightarrow> bool" where
  "has_location s = (\<exists>l ls. field s ''locations'' = Some (JArr (l # ls)))"

definition nonempty :: "json \<Rightarrow> bool" where
  "nonempty v = (v \<noteq> JNull \<and> v \<noteq> JStr [] \<and> v \<noteq> JArr [] \<and> v \<noteq> JObj [])"

definition carries_public_key :: "json \<Rightarrow> json \<Rightarrow> bool" where
  "carries_public_key t v =
     (field t ''identifier'' = Some (JStr ''wireguard_udp'') \<and>
      (\<exists>mds md. field t ''metadata'' = Some (JArr mds) \<and> md \<in> set mds \<and>
         field md ''name'' = Some (JStr ''public_key'') \<and> field md ''value'' = Some v))"

definition has_wireguard_key :: "json \<Rightarrow> json \<Rightarrow> bool" where
  "has_wireguard_key s v =
     (\<exists>ts t. field s ''technologies'' = Some (JArr ts) \<and> t \<in> set ts \<and> carries_public_key t v)"

definition appended :: "string option \<Rightarrow> json list \<Rightarrow> server list" where
  "appended cf raw =
     concat (map (\<lambda>s. case extract_entry cf s of Inr (Some r) \<Rightarrow> [r] | _ \<Rightarrow> []) raw)"

definition key_le :: "server \<Rightarrow> server \<Rightarrow> bool" where
  "key_le a b = (py_lt_list (sort_tuple b) (sort_tuple a) = Inr False)"

text \<open>
  The raw entry of the scenarios of the specification (one location with a country name, one
  \<^verbatim>\<open>wireguard_udp\<close> technology with the public key \<^verbatim>\<open>ABC\<close>), with its status, country and
  name left open, and the record that the loop builds from it.
\<close>

definition example_entry :: "string \<Rightarrow> string \<Rightarrow> string \<Rightarrow> json" where
  "example_entry status country_name server_name =
     JObj [(''status'', JStr status),
           (''locations'', JArr [JObj [(''country'', JObj [(''name'', JStr country_name)])]]),
           (''technologies'', JArr [JObj [(''identifier'', JStr ''wireguard_udp''),
              (''metadata'', JArr [JObj [(''name'', JStr ''public_key''), (''value'', JStr ''ABC'')]])]]),
           (''id'', JInt 1), (''name'', JStr server_name),
           (''hostname'', JStr (server_name @ ''.nordvpn.com'')),
           (''station'', JStr ''1.2.3.4''), (''load'', JInt 10)]"

definition example_server :: "string \<Rightarrow> string \<Rightarrow> server" where
  "example_server country_name server_name =
     \<lparr>server_id = JInt 1, name = JStr server_name,
      hostname = JStr (server_name @ ''.nordvpn.com''), ip = JStr ''1.2.3.4'', load = JInt 10,
      country = JStr country_name, city = JStr [], public_key = JStr ''ABC''\<rparr>"

text \<open>
  A first location lacks a country name when it has no key \<^verbatim>\<open>country\<close> or its country has
  no key \<^verbatim>\<open>name\<close>; it lacks a city name when one of the keys on the path
  \<^verbatim>\<open>country\<close>, \<^verbatim>\<open>city\<close>, \<^verbatim>\<open>name\<close> is missing.
\<close>

definition lacks_country_name :: "json \<Rightarrow> bool" where
  "lacks_country_name loc =
     (case field loc ''country'' of None \<Rightarrow> True | Some c \<Rightarrow> field c ''name'' = None)"

definition lacks_city_name :: "json \<Rightarrow> bool" where
  "lacks_city_name loc =
     (case field loc ''country'' of None \<Rightarrow> True
      | Some c \<Rightarrow> (case field c ''city'' of None \<Rightarrow> True | Some ci \<Rightarrow> field ci ''name'' = None))"

text \<open>A second entry that passes the filters, with its first location left open.\<close>

definition example_entry_at :: "json \<Rightarrow> json" where
  "example_entry_at loc =
     JObj [(''status'', JStr ''online''),
           (''locations'', JArr [loc]),
           (''technologies'', JArr [JObj [(''identifier'', JStr ''wireguard_udp''),
              (''metadata'', JArr [JObj [(''name'', JStr ''public_key''), (''value'', JStr ''ABC'')]])]]),
           (''id'', JInt 2), (''name'', JStr ''xx1''), (''hostname'', JStr ''xx1.nordvpn.com''),
           (''station'', JStr ''5.6.7.8''), (''load'', JInt 20)]"

text \<open>
  The credentials response has a usable key when its body is an object whose field
  \<^verbatim>\<open>nordlynx_private_key\<close> is present and not empty, in the sense of Python's truth value.
\<close>

definition has_private_key :: "json \<Rightarrow> bool" where
  "has_private_key data =
     (case field data ''nordlynx_private_key'' of None \<Rightarrow> False | Some k \<Rightarrow> truthy k)"

definition is_error_status :: "int \<Rightarrow> bool" where
  "is_error_status c = (400 \<le> c \<and> c < 600)"

definition is_object :: "json \<Rightarrow> bool" where
  "is_object v = (case v of JObj kvs \<Rightarrow> True | _ \<Rightarrow> False)"

definition example_response :: "int \<Rightarrow> json \<Rightarrow> response" where
  "example_response c data = \<lparr>status_code = c, json_body = Inr data\<rparr>"

text \<open>The files that a run writes are the \<open>FileWrite\<close> events of its trace.\<close>

fun is_write :: "event \<Rightarrow> bool" where
  "is_write (FileWrite f c) = True"
| "is_write _ = False"

definition files_written :: "'a io \<Rightarrow> event list" where
  "files_written run = filter is_write (fst run)"

text \<open>
  A run of the scenarios: the token comes from the command line, the credentials endpoint
  answers 200 with the key \<^verbatim>\<open>PRIV\<close>, and the server list holds the German entry.
\<close>

definition example_args :: "string option \<Rightarrow> args" where
  "example_args country_filter =
     \<lparr>arg_token = Some ''tok'', arg_country = country_filter, arg_max = 50, arg_output = None\<rparr>"

definition example_world :: "string list \<Rightarrow> world" where
  "example_world lines =
     \<lparr>env_token = None, tty_line = None,
      credentials_endpoint =
        (\<lambda>t. Inr (example_response 200 (JObj [(''nordlynx_private_key'', JStr ''PRIV'')]))),
      servers_endpoint =
        Inr (example_response 200 (JArr [example_entry ''online'' ''Germany'' ''de1''])),
      stdin_lines = lines\<rparr>"

text \<open>
  A line of standard input is a valid choice \<open>c\<close> among \<open>n\<close> displayed servers when it parses
  as the integer \<open>c\<close> and \<open>c\<close> lies between 1 and \<open>n\<close>; it is invalid when it does not parse
  or parses to a number outside that range. The events of the selection loop are its prompt
  and its two retry messages.
\<close>

definition valid_choice :: "nat \<Rightarrow> string \<Rightarrow> int \<Rightarrow> bool" where
  "valid_choice n line c = (py_int (py_strip line) = Some c \<and> 1 \<le> c \<and> c \<le> int n)"

definition invalid_line :: "nat \<Rightarrow> string \<Rightarrow> bool" where
  "invalid_line n line =
     (case py_int (py_strip line) of None \<Rightarrow> True | Some c \<Rightarrow> \<not> (1 \<le> c \<and> c \<le> int n))"

fun is_prompt :: "event \<Rightarrow> bool" where
  "is_prompt (Prompt p) = True"
| "is_prompt _ = False"

definition loop_events :: "server list \<Rightarrow> event set" where
  "loop_events shown =
     {Prompt (select_prompt shown), Stdout ''Please enter a number.'',
      Stdout ''Out of range, try again.''}"

text \<open>
  The sections of a configuration text: a section header is a line that, without the white
  space around it, is the bracketed name.
\<close>

definition section_count :: "string \<Rightarrow> string \<Rightarrow> nat" where
  "section_count header text' = length (filter (\<lambda>l. py_strip l = header) (split_lines text'))"

text \<open>The text that the template denotes when the three inserted strings hold no newline.\<close>

definition rendered :: "string \<Rightarrow> string \<Rightarrow> string \<Rightarrow> string" where
  "rendered private_key' public_key' ip' =
     ''[Interface]\<newline>PrivateKey = '' @ private_key'
     @ ''\<newline>Address    = 10.5.0.2/32\<newline>DNS        = 103.86.96.100, 103.86.99.100\<newline>\<newline>[Peer]\<newline>PublicKey           = ''
     @ public_key'
     @ ''\<newline>AllowedIPs         = 0.0.0.0/0, ::/0\<newline>Endpoint           = '' @ ip'
     @ '':51820\<newline>PersistentKeepalive = 25\<newline>''"

text \<open>
  A record has a string key when its country, city and name are strings; \<open>string_key\<close> is
  then the triple of the three strings, ordered lexicographically, each string by the codes
  of its characters.
\<close>

definition has_string_key :: "server \<Rightarrow> bool" where
  "has_string_key r =
     (case (country r, city r, name r) of (JStr a, JStr b, JStr c) \<Rightarrow> True | _ \<Rightarrow> False)"

definition string_key :: "server \<Rightarrow> string \<times> string \<times> string" where
  "string_key r =
     (case (country r, city r, name r) of (JStr a, JStr b, JStr c) \<Rightarrow> (a, b, c) | _ \<Rightarrow> ([], [], []))"

text \<open>On string keys the insertion always returns, and puts the new element behind the
  elements that are not greater.\<close>

fun insert_after :: "server \<Rightarrow> server list \<Rightarrow> server list" where
  "insert_after x [] = [x]"
| "insert_after x (y # ys) =
     (if string_key x < string_key y then x # y # ys else y # insert_after x ys)"

fun insert_all :: "server list \<Rightarrow> server list \<Rightarrow> server list" where
  "insert_all acc [] = acc"
| "insert_all acc (x # xs) = insert_all (insert_after x acc) xs"

text \<open>
  Matching without regard to case, in the words of the specification and without
  \<^verbatim>\<open>lower()\<close>: two characters are the same letter when they are equal or when one is an
  upper-case letter, code 65 to 90, and the other its lower-case form, 32 above it; a filter
  occurs in a name when the name has a contiguous piece that agrees with the filter letter
  by letter. Python's \<^verbatim>\<open>str.lower()\<close> is the map of the model on text whose characters all
  have codes below 128, which \<open>ascii_only\<close> says.
\<close>

definition ascii_only :: "string \<Rightarrow> bool" where
  "ascii_only s = list_all (\<lambda>c. (of_char c :: nat) < 128) s"

definition is_upper :: "char \<Rightarrow> bool" where
  "is_upper c = (65 \<le> (of_char c :: nat) \<and> (of_char c :: nat) \<le> 90)"

definition same_letter :: "char \<Rightarrow> char \<Rightarrow> bool" where
  "same_letter a b =
     (a = b \<or> (is_upper a \<and> (of_char b :: nat) = of_char a + 32)
            \<or> (is_upper b \<and> (of_char a :: nat) = of_char b + 32))"

definition contains_ignoring_case :: "string \<Rightarrow> string \<Rightarrow> bool" where
  "contains_ignoring_case f c =
     (\<exists>pre piece post. c = pre @ piece @ post \<and> list_all2 same_letter f piece)"

text \<open>
  The filters on a raw entry, as the specification describes them. \<open>first_match k v xs\<close> is
  the first element of \<open>xs\<close> whose field \<open>k\<close> is the string \<open>v\<close>, all elements before it
  being objects. The public key of an entry is the value of the first metadata entry named
  \<^verbatim>\<open>public_key\<close> of the first technology with identifier \<^verbatim>\<open>wireguard_udp\<close>, both held in
  arrays. A location is well formed when it is an object in which \<^verbatim>\<open>country\<close> and, inside
  it, \<^verbatim>\<open>city\<close> are objects where they are present. \<open>value_of s k\<close> is \<^verbatim>\<open>s.get(k)\<close> for an
  object \<open>s\<close>, and \<open>record_of\<close> the record with the five fields copied from the entry.
\<close>

fun first_match :: "string \<Rightarrow> string \<Rightarrow> json list \<Rightarrow> json option" where
  "first_match k v [] = None"
| "first_match k v (x # xs) =
     (if is_object x then (if field x k = Some (JStr v) then Some x else first_match k v xs)
      else None)"

definition wireguard_public_key :: "json \<Rightarrow> json option" where
  "wireguard_public_key s =
     (case field s ''technologies'' of
        Some (JArr ts) \<Rightarrow>
          (case first_match ''identifier'' ''wireguard_udp'' ts of
             Some t \<Rightarrow>
               (case field t ''metadata'' of
                  Some (JArr mds) \<Rightarrow>
                    (case first_match ''name'' ''public_key'' mds of
                       Some m \<Rightarrow> field m ''value''
                     | None \<Rightarrow> None)
                | _ \<Rightarrow> None)
           | None \<Rightarrow> None)
      | _ \<Rightarrow> None)"

definition location_ok :: "json \<Rightarrow> bool" where
  "location_ok loc =
     (is_object loc \<and>
      (case field loc ''country'' of
         None \<Rightarrow> True
       | Some c \<Rightarrow> is_object c \<and> (case field c ''city'' of None \<Rightarrow> True | Some ci \<Rightarrow> is_object ci)))"

definition country_value :: "json \<Rightarrow> json" where
  "country_value loc =
     (case field loc ''country'' of
        None \<Rightarrow> JStr ''Unknown''
      | Some c \<Rightarrow> (case field c ''name'' of None \<Rightarrow> JStr ''Unknown'' | Some n \<Rightarrow> n))"

definition city_value :: "json \<Rightarrow> json" where
  "city_value loc =
     (case field loc ''country'' of
        None \<Rightarrow> JStr []
      | Some c \<Rightarrow>
          (case field c ''city'' of
             None \<Rightarrow> JStr []
           | Some ci \<Rightarrow> (case field ci ''name'' of None \<Rightarrow> JStr [] | Some n \<Rightarrow> n)))"

definition value_of :: "json \<Rightarrow> string \<Rightarrow> json" where
  "value_of s k = (case field s k of None \<Rightarrow> JNull | Some v \<Rightarrow> v)"

definition record_of :: "json \<Rightarrow> json \<Rightarrow> json \<Rightarrow> json \<Rightarrow> server" where
  "record_of s c ci v =
     \<lparr>server_id = value_of s ''id'', name = value_of s ''name'',
      hostname = value_of s ''hostname'', ip = value_of s ''station'', load = value_of s ''load'',
      country = c, city = ci, public_key = v\<rparr>"

text \<open>
  Two first locations without a country name: one whose country holds a city, and one whose
  country holds \<^verbatim>\<open>null\<close> for the city, as in \<^verbatim>\<open>{"country": {"city": null}}\<close>.
\<close>

definition city_only_location :: json where
  "city_only_location = JObj [(''country'', JObj [(''city'', JObj [(''name'', JStr ''Vilnius'')])])]"

definition null_city_location :: json where
  "null_city_location = JObj [(''country'', JObj [(''city'', JNull)])]"

section \<open>Properties\<close>

subsection \<open>The token resolver\<close>

text \<open>
  C2. The claim: the resolver prefers the command line over the environment over the
  prompt, and a candidate that is empty after trimming is rejected, so that resolution
  falls through to the next source. The code tests the command-line value before it trims
  it: a command-line token of three spaces is accepted and the empty string is returned,
  although the environment holds the token \<open>abc\<close>. The same happens to a blank
  environment value. Only the prompt trims before it tests.
\<close>

theorem get_token_blank_cli_returns_empty:
  "get_token (Some ''   '') (Some ''abc'') tty = ([], Inr [])
   \<and> get_token None (Some ''   '') tty = ([], Inr [])
   \<and> snd (get_token None None (Some ''   '')) = Inl (SystemExit 1)"
  by (simp add: py_strip_def py_isspace_def)

subsection \<open>The server catalogue\<close>

lemma bnd_Inr_iff: "(bnd m f = Inr y) = (\<exists>x. m = Inr x \<and> f x = Inr y)"
  by (cases m) (simp_all add: bnd_def)

lemma dict_get_Inr_iff:
  "(dict_get s k d = Inr v) = (\<exists>kvs. s = JObj kvs \<and> v = (case map_of kvs k of Some w \<Rightarrow> w | None \<Rightarrow> d))"
  by (cases s) auto

lemma truthy_nonempty: "truthy v \<Longrightarrow> nonempty v"
  by (cases v) (auto simp: nonempty_def)

lemma py_eq_sym: "py_eq a b = py_eq b a"
  and py_eq_list_sym: "py_eq_list xs ys = py_eq_list ys xs"
  and py_eq_items_total: "py_eq_items kvs kws \<or> \<not> py_eq_items kvs kws"
  and py_eq_lookup_total: "py_eq_lookup v k kws' \<or> \<not> py_eq_lookup v k kws'"
  by (induction a b and xs ys and kvs kws and v k kws' rule: py_eq_py_eq_list_py_eq_items_py_eq_lookup.induct)
     (auto split: option.splits)

lemma py_lt_asym: "py_lt a b = Inr True \<Longrightarrow> py_lt b a = Inr False"
  and py_lt_list_asym: "py_lt_list xs ys = Inr True \<Longrightarrow> py_lt_list ys xs = Inr False"
  by (induction a b and xs ys rule: py_lt_py_lt_list.induct)
     (auto split: option.splits if_splits simp: py_eq_sym)

lemma py_insort_mset: "py_insort x ys = Inr zs \<Longrightarrow> mset zs = add_mset x (mset ys)"
  by (induction ys arbitrary: zs) (auto simp: bnd_Inr_iff split: if_splits)

lemma py_insort_hd:
  "py_insort x ys = Inr zs \<Longrightarrow> zs \<noteq> [] \<and> (hd zs = x \<or> (ys \<noteq> [] \<and> hd zs = hd ys \<and> key_le (hd ys) x))"
  by (cases ys) (auto simp: bnd_Inr_iff key_le_def split: if_splits)

lemma py_insort_successively:
  "successively key_le ys \<Longrightarrow> py_insort x ys = Inr zs \<Longrightarrow> successively key_le zs"
proof (induction ys arbitrary: zs)
  case Nil
  then show ?case by auto
next
  case (Cons y ys)
  from Cons.prems(2) obtain less where less: "py_lt_list (sort_tuple x) (sort_tuple y) = Inr less"
    and rest: "(if less then Inr (x # y # ys) else bnd (py_insort x ys) (\<lambda>zs. Inr (y # zs))) = Inr zs"
    by (auto simp: bnd_Inr_iff)
  show ?case
  proof (cases less)
    case True
    with less have "key_le x y" by (simp add: key_le_def py_lt_list_asym)
    with True rest Cons.prems(1) show ?thesis by auto
  next
    case False
    with rest obtain zs' where zs': "py_insort x ys = Inr zs'" and zs: "zs = y # zs'"
      by (auto simp: bnd_Inr_iff)
    from Cons.prems(1) have "successively key_le ys" by (auto simp: successively_Cons)
    then have IH: "successively key_le zs'" using zs' by (rule Cons.IH)
    from py_insort_hd [OF zs'] have ne: "zs' \<noteq> []"
      and hd: "hd zs' = x \<or> (ys \<noteq> [] \<and> hd zs' = hd ys \<and> key_le (hd ys) x)" by auto
    have "key_le y (hd zs')"
    proof (cases "hd zs' = x")
      case True
      with False less show ?thesis by (simp add: key_le_def)
    next
      case False
      with hd have "ys \<noteq> []" "hd zs' = hd ys" by auto
      with Cons.prems(1) show ?thesis by (simp add: successively_Cons)
    qed
    with IH ne zs show ?thesis by (simp add: successively_Cons)
  qed
qed

lemma py_sort_from_mset: "py_sort_from acc xs = Inr zs \<Longrightarrow> mset zs = mset acc + mset xs"
  by (induction xs arbitrary: acc) (auto simp: bnd_Inr_iff dest!: py_insort_mset)

lemma py_sort_from_successively:
  "successively key_le acc \<Longrightarrow> py_sort_from acc xs = Inr zs \<Longrightarrow> successively key_le zs"
  by (induction xs arbitrary: acc) (auto simp: bnd_Inr_iff dest: py_insort_successively)

lemma successively_nth:
  "successively P xs \<Longrightarrow> Suc i < length xs \<Longrightarrow> P (xs ! i) (xs ! Suc i)"
proof (induction xs arbitrary: i)
  case Nil
  then show ?case by simp
next
  case (Cons x xs)
  then show ?case by (cases i; cases xs) (auto simp: successively_Cons)
qed

lemma key_lt_strings:
  "py_lt_list [JStr a1, JStr a2, JStr a3] [JStr b1, JStr b2, JStr b3]
     = Inr ((a1, a2, a3) < (b1, b2, b3))"
  by auto

lemma extract_loop_appended:
  "extract_loop cf raw = Inr servers \<Longrightarrow> servers = appended cf raw"
  by (induction raw arbitrary: servers) (auto simp: bnd_Inr_iff appended_def split: option.splits)

lemma extract_loop_entries:
  "extract_loop cf raw = Inr servers \<Longrightarrow> s \<in> set raw \<Longrightarrow> \<exists>r. extract_entry cf s = Inr r"
  by (induction raw arbitrary: servers) (auto simp: bnd_Inr_iff)

lemma find_tech_found:
  "find_tech ts = Inr t \<Longrightarrow> truthy t \<Longrightarrow> t \<in> set ts \<and> field t ''identifier'' = Some (JStr ''wireguard_udp'')"
  by (induction ts) (auto simp: bnd_Inr_iff dict_get_Inr_iff field_def split: if_splits option.splits)

lemma find_public_key_found:
  "find_public_key mds = Inr v \<Longrightarrow> truthy v \<Longrightarrow>
     \<exists>md \<in> set mds. field md ''name'' = Some (JStr ''public_key'') \<and> field md ''value'' = Some v"
  by (induction mds) (auto simp: bnd_Inr_iff dict_get_Inr_iff field_def split: if_splits option.splits)

lemma find_tech_iter_arr:
  "py_iter x = Inr ts \<Longrightarrow> find_tech ts = Inr t \<Longrightarrow> truthy t \<Longrightarrow> x = JArr ts"
  by (cases x; cases ts) (auto simp: bnd_Inr_iff dict_get_Inr_iff split: if_splits)

lemma find_public_key_iter_arr:
  "py_iter x = Inr mds \<Longrightarrow> find_public_key mds = Inr v \<Longrightarrow> truthy v \<Longrightarrow> x = JArr mds"
  by (cases x; cases mds) (auto simp: bnd_Inr_iff dict_get_Inr_iff split: if_splits)

lemma extract_entry_Some:
  assumes "extract_entry cf s = Inr (Some r)"
  shows "is_online s \<and> has_location s \<and> has_wireguard_key s (public_key r) \<and> nonempty (public_key r)"
proof -
  from assms obtain l loc techs ts wg_tech metadata mds pk where
    status: "dict_get s ''status'' JNull = Inr (JStr ''online'')"
    and l: "dict_get s ''locations'' JNull = Inr l" "truthy l" "getitem0 l = Inr loc"
    and loc: "\<exists>c. dict_get loc ''country'' (JObj []) = Inr c"
    and techs: "dict_get s ''technologies'' (JArr []) = Inr techs" "py_iter techs = Inr ts"
      "find_tech ts = Inr wg_tech" "truthy wg_tech"
    and md: "dict_get wg_tech ''metadata'' (JArr []) = Inr metadata" "py_iter metadata = Inr mds"
      "find_public_key mds = Inr pk" "truthy pk"
    and r: "public_key r = pk"
    by (auto simp: extract_entry_def bnd_Inr_iff Let_def split: if_splits)
  from status have online: "is_online s"
    by (auto simp: dict_get_Inr_iff is_online_def field_def split: option.splits)
  from loc obtain lkvs where "loc = JObj lkvs" by (auto simp: dict_get_Inr_iff)
  with l have location: "has_location s"
    by (cases l rule: getitem0.cases)
       (auto simp: dict_get_Inr_iff has_location_def field_def split: option.splits)
  from techs have ts: "techs = JArr ts" by (auto dest: find_tech_iter_arr)
  from techs have wg: "wg_tech \<in> set ts" "field wg_tech ''identifier'' = Some (JStr ''wireguard_udp'')"
    by (auto dest: find_tech_found)
  from wg(1) techs(1) ts have fts: "field s ''technologies'' = Some (JArr ts)"
    by (auto simp: dict_get_Inr_iff field_def split: option.splits)
  from md have mds: "metadata = JArr mds" by (auto dest: find_public_key_iter_arr)
  from md obtain m where m: "m \<in> set mds" "field m ''name'' = Some (JStr ''public_key'')"
    "field m ''value'' = Some pk"
    by (blast dest: find_public_key_found)
  from m(1) md(1) mds have "field wg_tech ''metadata'' = Some (JArr mds)"
    by (auto simp: dict_get_Inr_iff field_def split: option.splits)
  with wg m fts have "has_wireguard_key s pk"
    unfolding has_wireguard_key_def carries_public_key_def by blast
  with online location md(4) r show ?thesis by (simp add: truthy_nonempty)
qed

text \<open>
  C1. Whenever \<^verbatim>\<open>extract_wireguard_servers\<close> returns, its result holds exactly the records
  of the entries that the loop body accepts; every accepted entry is online, has a non-empty
  list of locations and a \<^verbatim>\<open>wireguard_udp\<close> technology that carries the record's public key,
  which is non-empty; and every entry that fails one of these conditions is skipped.
\<close>

theorem extract_keeps_only_online_wireguard:
  assumes "extract_wireguard_servers (JArr raw) cf = Inr res"
  shows "mset res = mset (appended cf raw) \<and>
    (\<forall>s \<in> set raw. \<forall>r. extract_entry cf s = Inr (Some r) \<longrightarrow>
       is_online s \<and> has_location s \<and> has_wireguard_key s (public_key r) \<and> nonempty (public_key r)) \<and>
    (\<forall>s \<in> set raw. \<not> (is_online s \<and> has_location s \<and> (\<exists>v. has_wireguard_key s v \<and> nonempty v)) \<longrightarrow>
       extract_entry cf s = Inr None)"
proof -
  from assms obtain servers where loop: "extract_loop cf raw = Inr servers"
    and sort: "py_sort servers = Inr res"
    by (auto simp: extract_wireguard_servers_def bnd_Inr_iff)
  from sort have "mset res = mset servers"
    by (auto simp: py_sort_def dest: py_sort_from_mset)
  with extract_loop_appended [OF loop] have 1: "mset res = mset (appended cf raw)"
    by simp
  have 2: "is_online s \<and> has_location s \<and> has_wireguard_key s (public_key r) \<and> nonempty (public_key r)"
    if "extract_entry cf s = Inr (Some r)" for s r
    using that by (rule extract_entry_Some)
  have 3: "extract_entry cf s = Inr None"
    if "s \<in> set raw" "\<not> (is_online s \<and> has_location s \<and> (\<exists>v. has_wireguard_key s v \<and> nonempty v))" for s
  proof -
    from loop that(1) obtain r where r: "extract_entry cf s = Inr r"
      by (blast dest: extract_loop_entries)
    show ?thesis
    proof (cases r)
      case None
      with r show ?thesis by simp
    next
      case (Some x)
      with r that(2) extract_entry_Some [of cf s x] show ?thesis by blast
    qed
  qed
  from 1 2 3 show ?thesis by blast
qed

lemma extract_entry_example:
  "extract_entry None (example_entry st c n) =
     (if st = ''online'' then Inr (Some (example_server c n)) else Inr None)"
  by (simp add: extract_entry_def example_entry_def example_server_def bnd_def)

lemma extract_example_two:
  "extract_wireguard_servers
     (JArr [example_entry ''online'' ''Germany'' ''de1'', example_entry ''offline'' ''Norway'' ''no1'',
            example_entry ''online'' ''Albania'' ''al1'']) None
   = Inr [example_server ''Albania'' ''al1'', example_server ''Germany'' ''de1'']"
  by (simp add: extract_wireguard_servers_def extract_entry_example bnd_def py_sort_def
      sort_tuple_def example_server_def)

theorem extract_keeps_only_online_wireguard_witness:
  "extract_wireguard_servers
     (JArr [example_entry ''online'' ''Germany'' ''de1'', example_entry ''offline'' ''Norway'' ''no1'',
            example_entry ''online'' ''Albania'' ''al1'']) None
   = Inr [example_server ''Albania'' ''al1'', example_server ''Germany'' ''de1'']
   \<and> is_online (example_entry ''online'' ''Germany'' ''de1'')
   \<and> has_location (example_entry ''online'' ''Germany'' ''de1'')
   \<and> has_wireguard_key (example_entry ''online'' ''Germany'' ''de1'') (JStr ''ABC'')
   \<and> \<not> is_online (example_entry ''offline'' ''Norway'' ''no1'')
   \<and> extract_entry None (example_entry ''offline'' ''Norway'' ''no1'') = Inr None"
proof -
  have off: "\<not> is_online (example_entry ''offline'' ''Norway'' ''no1'')"
    by (simp add: is_online_def field_def example_entry_def)
  have on: "extract_entry None (example_entry ''online'' ''Germany'' ''de1'')
      = Inr (Some (example_server ''Germany'' ''de1''))"
    by (simp add: extract_entry_example)
  have pk: "public_key (example_server ''Germany'' ''de1'') = JStr ''ABC''"
    by (simp add: example_server_def)
  from extract_keeps_only_online_wireguard [OF extract_example_two] off on pk
  show ?thesis using extract_example_two by auto
qed

lemma py_in_sublist: "py_in a b = sublist a b"
  by (induction b) (auto simp: sublist_Cons_right)

lemma bnd_Inr [simp]: "bnd (Inr x) f = f x"
  by (simp add: bnd_def)

lemma bnd_Inl [simp]: "bnd (Inl e) f = Inl e"
  by (simp add: bnd_def)

lemma country_rejected_str:
  "country_rejected (Some f) (JStr c) = Inr (\<not> sublist (py_lower f) (py_lower c))"
  by (cases f) (simp_all add: py_in_sublist py_lower_def)

lemma country_rejected_Inr:
  "country_rejected (Some f) v = Inr b \<Longrightarrow> f = [] \<and> \<not> b \<or> (\<exists>c. v = JStr c \<and> b = (\<not> sublist (py_lower f) (py_lower c)))"
  by (cases "(Some f, v)" rule: country_rejected.cases) (auto simp: py_in_sublist)

lemma extract_entry_SomeE:
  assumes "extract_entry cf s = Inr (Some r)"
  obtains l loc c ci techs ts wg_tech metadata mds where
    "dict_get s ''status'' JNull = Inr (JStr ''online'')"
    "dict_get s ''locations'' JNull = Inr l" "truthy l" "getitem0 l = Inr loc"
    "dict_get loc ''country'' (JObj []) = Inr c"
    "dict_get c ''name'' (JStr ''Unknown'') = Inr (country r)"
    "dict_get c ''city'' (JObj []) = Inr ci"
    "dict_get ci ''name'' (JStr []) = Inr (city r)"
    "country_rejected cf (country r) = Inr False"
    "dict_get s ''technologies'' (JArr []) = Inr techs" "py_iter techs = Inr ts"
    "find_tech ts = Inr wg_tech" "truthy wg_tech"
    "dict_get wg_tech ''metadata'' (JArr []) = Inr metadata" "py_iter metadata = Inr mds"
    "find_public_key mds = Inr (public_key r)" "truthy (public_key r)"
    "dict_get s ''id'' JNull = Inr (server_id r)"
    "dict_get s ''name'' JNull = Inr (name r)"
    "dict_get s ''hostname'' JNull = Inr (hostname r)"
    "dict_get s ''station'' JNull = Inr (ip r)"
    "dict_get s ''load'' JNull = Inr (load r)"
  using assms unfolding extract_entry_def
  by (auto simp: bnd_Inr_iff Let_def split: if_splits)

lemma extract_entry_filter_match:
  assumes "extract_entry None s = Inr (Some r)" and "country r = JStr c"
  shows "extract_entry (Some f) s =
     (if sublist (py_lower f) (py_lower c) then Inr (Some r) else Inr None)"
  using assms(1)
proof (rule extract_entry_SomeE)
  fix l loc c' ci techs ts wg_tech metadata mds
  assume "dict_get s ''status'' JNull = Inr (JStr ''online'')"
    "dict_get s ''locations'' JNull = Inr l" "truthy l" "getitem0 l = Inr loc"
    "dict_get loc ''country'' (JObj []) = Inr c'"
    "dict_get c' ''name'' (JStr ''Unknown'') = Inr (country r)"
    "dict_get c' ''city'' (JObj []) = Inr ci"
    "dict_get ci ''name'' (JStr []) = Inr (city r)"
    "country_rejected None (country r) = Inr False"
    "dict_get s ''technologies'' (JArr []) = Inr techs" "py_iter techs = Inr ts"
    "find_tech ts = Inr wg_tech" "truthy wg_tech"
    "dict_get wg_tech ''metadata'' (JArr []) = Inr metadata" "py_iter metadata = Inr mds"
    "find_public_key mds = Inr (public_key r)" "truthy (public_key r)"
    "dict_get s ''id'' JNull = Inr (server_id r)"
    "dict_get s ''name'' JNull = Inr (name r)"
    "dict_get s ''hostname'' JNull = Inr (hostname r)"
    "dict_get s ''station'' JNull = Inr (ip r)"
    "dict_get s ''load'' JNull = Inr (load r)"
  with assms(2) show ?thesis
    by (simp add: extract_entry_def Let_def country_rejected_str)
qed

lemma extract_entry_filter_Some:
  assumes "extract_entry (Some f) s = Inr (Some r)"
  shows "extract_entry None s = Inr (Some r) \<and>
     (f = [] \<or> (\<exists>c. country r = JStr c \<and> sublist (py_lower f) (py_lower c)))"
  using assms
proof (rule extract_entry_SomeE)
  fix l loc c' ci techs ts wg_tech metadata mds
  assume *: "dict_get s ''status'' JNull = Inr (JStr ''online'')"
    "dict_get s ''locations'' JNull = Inr l" "truthy l" "getitem0 l = Inr loc"
    "dict_get loc ''country'' (JObj []) = Inr c'"
    "dict_get c' ''name'' (JStr ''Unknown'') = Inr (country r)"
    "dict_get c' ''city'' (JObj []) = Inr ci"
    "dict_get ci ''name'' (JStr []) = Inr (city r)"
    "dict_get s ''technologies'' (JArr []) = Inr techs" "py_iter techs = Inr ts"
    "find_tech ts = Inr wg_tech" "truthy wg_tech"
    "dict_get wg_tech ''metadata'' (JArr []) = Inr metadata" "py_iter metadata = Inr mds"
    "find_public_key mds = Inr (public_key r)" "truthy (public_key r)"
    "dict_get s ''id'' JNull = Inr (server_id r)"
    "dict_get s ''name'' JNull = Inr (name r)"
    "dict_get s ''hostname'' JNull = Inr (hostname r)"
    "dict_get s ''station'' JNull = Inr (ip r)"
    "dict_get s ''load'' JNull = Inr (load r)"
    and rej: "country_rejected (Some f) (country r) = Inr False"
  from * have "extract_entry None s = Inr (Some r)"
    by (simp add: extract_entry_def Let_def)
  with country_rejected_Inr [OF rej] show ?thesis by auto
qed

lemma py_lower_examples:
  "py_lower ''lithu'' = ''lithu''" "py_lower ''Lithuania'' = ''lithuania''"
  "py_lower ''Unknown'' = ''unknown''" "py_lower ''france'' = ''france''"
  "py_lower ''KNOW'' = ''know''"
  by code_simp+

lemma sublist_examples:
  "sublist ''lithu'' ''lithuania''" "\<not> sublist ''france'' ''lithuania''"
  "sublist ''know'' ''unknown''" "\<not> sublist ''france'' ''unknown''"
  "\<not> sublist ''france'' ''germany''"
  by (simp_all add: py_in_sublist [symmetric])

lemma extract_entry_example_at:
  "extract_entry None (example_entry_at (JObj [])) =
     Inr (Some \<lparr>server_id = JInt 2, name = JStr ''xx1'', hostname = JStr ''xx1.nordvpn.com'',
       ip = JStr ''5.6.7.8'', load = JInt 20, country = JStr ''Unknown'', city = JStr [],
       public_key = JStr ''ABC''\<rparr>)"
  by (simp add: extract_entry_def example_entry_at_def bnd_def)

subsection \<open>The entry point\<close>

lemma io_bind_fst:
  "fst (io_bind m f) = fst m @ (case snd m of Inl e \<Rightarrow> [] | Inr x \<Rightarrow> fst (f x))"
  by (cases m; cases "snd m") (auto simp: io_bind_def split: prod.splits)

lemma io_bind_snd:
  "snd (io_bind m f) = (case snd m of Inl e \<Rightarrow> Inl e | Inr x \<Rightarrow> snd (f x))"
  by (cases m; cases "snd m") (auto simp: io_bind_def split: prod.splits)

lemma files_written_bind:
  "files_written (io_bind m f) =
     files_written m @ (case snd m of Inl e \<Rightarrow> [] | Inr x \<Rightarrow> files_written (f x))"
  by (cases "snd m") (simp_all add: files_written_def io_bind_fst)

lemma get_token_writes: "files_written (get_token c e t) = []"
  by (cases "(c, e, t)" rule: get_token.cases) (simp_all add: files_written_def Let_def)

lemma fetch_key_writes: "files_written (fetch_nordlynx_private_key c t) = []"
  by (simp add: files_written_def fetch_nordlynx_private_key_def split: sum.splits)

lemma print_rows_writes: "files_written (print_rows k xs) = []"
  by (induction xs arbitrary: k)
     (simp_all add: files_written_bind split: sum.splits, simp_all add: files_written_def)

lemma select_loop_writes: "files_written (select_loop shown lines) = []"
  by (induction lines)
     (simp_all add: files_written_bind split: option.splits, simp_all add: files_written_def)

lemma choose_server_writes: "files_written (choose_server servers m lines) = []"
  by (simp add: choose_server_def files_written_bind Let_def print_rows_writes
      select_loop_writes split: sum.splits, simp add: files_written_def)

lemma choose_server_empty:
  "choose_server [] m lines = ([Stderr ''No matching WireGuard servers found.''], Inl (SystemExit 1))"
  by (simp add: choose_server_def)

lemma io_print_writes: "files_written (io_print l) = []"
  by (simp add: files_written_def io_print_def)

lemma io_lift_writes: "files_written (io_lift r) = []"
  by (simp add: files_written_def io_lift_def)

lemma main_failure_writes:
  "snd (main a w) = Inl e \<Longrightarrow> files_written (main a w) = []"
  unfolding main_def
  by (auto simp: files_written_bind io_bind_snd get_token_writes fetch_key_writes
      choose_server_writes io_print_writes io_lift_writes Let_def split: sum.splits)

lemma main_written_stages:
  assumes "files_written (main a w) \<noteq> []"
  shows "\<exists>o1 token o2 key servers o3 server'.
       get_token (arg_token a) (env_token w) (tty_line w) = (o1, Inr token)
     \<and> fetch_nordlynx_private_key (credentials_endpoint w) token = (o2, Inr key)
     \<and> fetch_servers (servers_endpoint w) (arg_country a) = Inr servers
     \<and> choose_server servers (arg_max a) (stdin_lines w) = (o3, Inr server')
     \<and> snd (main a w) = Inr ()
     \<and> files_written (main a w) =
         [FileWrite (case arg_output a of Some (c # cs) \<Rightarrow> c # cs
                     | _ \<Rightarrow> py_str (hostname server') @ ''.conf'')
            (build_wireguard_config key server')]"
proof -
  from assms main_failure_writes [of a w] have ok: "snd (main a w) = Inr ()"
    by (cases "snd (main a w)") auto
  then obtain token key servers server' where
    t: "snd (get_token (arg_token a) (env_token w) (tty_line w)) = Inr token"
    and k: "snd (fetch_nordlynx_private_key (credentials_endpoint w) token) = Inr key"
    and s: "fetch_servers (servers_endpoint w) (arg_country a) = Inr servers"
    and c: "snd (choose_server servers (arg_max a) (stdin_lines w)) = Inr server'"
    by (auto simp: main_def io_bind_snd io_print_def io_lift_def split: sum.splits)
  have "files_written (main a w) =
         [FileWrite (case arg_output a of Some (c # cs) \<Rightarrow> c # cs
                     | _ \<Rightarrow> py_str (hostname server') @ ''.conf'')
            (build_wireguard_config key server')]"
    using t k s c
    by (simp add: main_def files_written_bind get_token_writes fetch_key_writes
        choose_server_writes io_print_writes io_lift_writes io_lift_def io_print_def Let_def)
       (simp add: files_written_def)
  with ok s
    prod.collapse [of "get_token (arg_token a) (env_token w) (tty_line w)", unfolded t]
    prod.collapse [of "fetch_nordlynx_private_key (credentials_endpoint w) token", unfolded k]
    prod.collapse [of "choose_server servers (arg_max a) (stdin_lines w)", unfolded c]
  show ?thesis by metis
qed

lemma main_empty_list:
  assumes "get_token (arg_token a) (env_token w) (tty_line w) = (o1, Inr token)"
    and "fetch_nordlynx_private_key (credentials_endpoint w) token = (o2, Inr key)"
    and "fetch_servers (servers_endpoint w) (arg_country a) = Inr []"
  shows "snd (main a w) = Inl (SystemExit 1)"
  using assms
  by (simp add: main_def io_bind_snd io_print_def io_lift_def choose_server_empty)

text \<open>
  C9. A run that ends with an error has written no file; in particular, when the token and
  the key are obtained and the filtered server list is empty, the run ends with exit status
  1 and without a file. A file is written only after all four stages have returned, and
  then it is the one file with the rendered configuration.
\<close>

theorem failed_run_writes_no_file:
  "(\<forall>e. snd (main a w) = Inl e \<longrightarrow> files_written (main a w) = [])
   \<and> (\<forall>o1 token o2 key.
         get_token (arg_token a) (env_token w) (tty_line w) = (o1, Inr token)
       \<and> fetch_nordlynx_private_key (credentials_endpoint w) token = (o2, Inr key)
       \<and> fetch_servers (servers_endpoint w) (arg_country a) = Inr []
       \<longrightarrow> snd (main a w) = Inl (SystemExit 1) \<and> exit_status (snd (main a w)) \<noteq> 0
         \<and> files_written (main a w) = [])
   \<and> (files_written (main a w) \<noteq> [] \<longrightarrow>
       (\<exists>o1 token o2 key servers o3 server'.
           get_token (arg_token a) (env_token w) (tty_line w) = (o1, Inr token)
         \<and> fetch_nordlynx_private_key (credentials_endpoint w) token = (o2, Inr key)
         \<and> fetch_servers (servers_endpoint w) (arg_country a) = Inr servers
         \<and> choose_server servers (arg_max a) (stdin_lines w) = (o3, Inr server')
         \<and> snd (main a w) = Inr ()
         \<and> files_written (main a w) =
             [FileWrite (case arg_output a of Some (c # cs) \<Rightarrow> c # cs
                         | _ \<Rightarrow> py_str (hostname server') @ ''.conf'')
                (build_wireguard_config key server')]))"
proof -
  have "snd (main a w) = Inl (SystemExit 1) \<and> exit_status (snd (main a w)) \<noteq> 0
         \<and> files_written (main a w) = []"
    if "get_token (arg_token a) (env_token w) (tty_line w) = (o1, Inr token)"
      "fetch_nordlynx_private_key (credentials_endpoint w) token = (o2, Inr key)"
      "fetch_servers (servers_endpoint w) (arg_country a) = Inr []" for o1 token o2 key
    using main_empty_list [OF that] main_failure_writes [of a w "SystemExit 1"] by simp
  with main_failure_writes [of a w] main_written_stages [of a w] show ?thesis
    by blast
qed

lemma example_fetch_servers:
  "fetch_servers (servers_endpoint (example_world lines)) None
     = Inr [example_server ''Germany'' ''de1'']"
  "fetch_servers (servers_endpoint (example_world lines)) (Some ''france'') = Inr []"
proof -
  have e: "extract_entry None (example_entry ''online'' ''Germany'' ''de1'')
      = Inr (Some (example_server ''Germany'' ''de1''))"
    by (simp add: extract_entry_example)
  have c: "country (example_server ''Germany'' ''de1'') = JStr ''Germany''"
    by (simp add: example_server_def)
  have l: "py_lower ''Germany'' = ''germany''" by code_simp
  have f: "extract_entry (Some ''france'') (example_entry ''online'' ''Germany'' ''de1'') = Inr None"
    using extract_entry_filter_match [OF e c, of "''france''"]
    by (simp add: py_lower_examples sublist_examples l)
  show "fetch_servers (servers_endpoint (example_world lines)) None
     = Inr [example_server ''Germany'' ''de1'']"
    by (simp add: fetch_servers_def example_world_def example_response_def raise_for_status_def
        extract_wireguard_servers_def e py_sort_def)
  show "fetch_servers (servers_endpoint (example_world lines)) (Some ''france'') = Inr []"
    by (simp add: fetch_servers_def example_world_def example_response_def raise_for_status_def
        extract_wireguard_servers_def f py_sort_def)
qed

lemma example_key:
  "fetch_nordlynx_private_key (credentials_endpoint (example_world lines)) ''tok''
     = ([], Inr (JStr ''PRIV''))"
  by (simp add: fetch_nordlynx_private_key_def example_world_def example_response_def
      raise_for_status_def)

lemma example_token:
  "get_token (arg_token (example_args cf)) (env_token (example_world lines))
     (tty_line (example_world lines)) = ([], Inr ''tok'')"
  by (simp add: example_args_def py_strip_def py_isspace_def)

lemma example_choice:
  "snd (choose_server [example_server ''Germany'' ''de1''] 50 [''1''])
     = Inr (example_server ''Germany'' ''de1'')"
proof -
  have "py_int (py_strip ''1'') = Some 1" by code_simp
  then show ?thesis
    by (simp add: choose_server_def io_bind_snd py_slice_to_def format_row_def example_server_def)
qed

theorem failed_run_writes_no_file_witness:
  "snd (main (example_args (Some ''france'')) (example_world [])) = Inl (SystemExit 1)
   \<and> files_written (main (example_args (Some ''france'')) (example_world [])) = []
   \<and> files_written (main (example_args None) (example_world [''1''])) =
       [FileWrite ''de1.nordvpn.com.conf''
          (build_wireguard_config (JStr ''PRIV'') (example_server ''Germany'' ''de1''))]"
proof -
  have arg: "arg_country (example_args cf) = cf" "arg_max (example_args cf) = 50"
    "arg_output (example_args cf) = None" for cf
    by (simp_all add: example_args_def)
  have lines: "stdin_lines (example_world ls) = ls" for ls
    by (simp add: example_world_def)
  have ok: "snd (main (example_args None) (example_world [''1''])) = Inr ()"
    by (simp add: main_def io_bind_snd example_token example_key example_fetch_servers
        io_print_def io_lift_def arg lines example_choice Let_def)
  have written: "files_written (main (example_args None) (example_world [''1''])) \<noteq> []"
    using get_token_writes fetch_key_writes choose_server_writes
    by (simp add: main_def files_written_bind example_token example_key example_fetch_servers
        io_print_def io_lift_def arg lines example_choice Let_def)
       (simp add: files_written_def)
  have host: "py_str (hostname (example_server ''Germany'' ''de1'')) = ''de1.nordvpn.com''"
    by (simp add: example_server_def)
  from failed_run_writes_no_file [of "example_args (Some ''france'')" "example_world []"]
    failed_run_writes_no_file [of "example_args None" "example_world [''1'']"]
    written example_token example_key example_fetch_servers example_choice host
  show ?thesis
    by (auto simp: arg lines)
qed

subsection \<open>The selection\<close>

lemma io_bind_Inr: "io_bind (out, Inr x) f = (out @ fst (f x), snd (f x))"
  by (simp add: io_bind_def split: prod.splits)

lemma io_bind_Inl: "io_bind (out, Inl e) f = (out, Inl e)"
  by (simp add: io_bind_def)

lemma format_left_error: "format_left w v = Inl e \<Longrightarrow> e = TypeError"
  by (cases "(w, v)" rule: format_left.cases) auto

lemma format_right_error: "format_right w v = Inl e \<Longrightarrow> e = TypeError"
  by (cases "(w, v)" rule: format_right.cases) auto

lemma bnd_Inl_iff: "(bnd m f = Inl e) = (m = Inl e \<or> (\<exists>x. m = Inr x \<and> f x = Inl e))"
  by (cases m) simp_all

lemma format_row_error: "format_row k s = Inl e \<Longrightarrow> e = TypeError"
  by (auto simp: format_row_def bnd_Inl_iff dest: format_left_error format_right_error)

lemma print_rows_cases:
  "(\<exists>rows. print_rows k xs = (map Stdout rows, Inr ()) \<and> length rows = length xs \<and>
      (\<forall>i < length xs. format_row (k + i) (xs ! i) = Inr (rows ! i)))
   \<or> snd (print_rows k xs) = Inl TypeError"
proof (induction xs arbitrary: k)
  case Nil
  then show ?case by simp
next
  case (Cons x xs)
  show ?case
  proof (cases "format_row k x")
    case (Inl e)
    then show ?thesis by (simp add: format_row_error [OF Inl])
  next
    case (Inr line)
    from Cons.IH [of "Suc k"] show ?thesis
    proof
      assume "\<exists>rows. print_rows (Suc k) xs = (map Stdout rows, Inr ()) \<and> length rows = length xs \<and>
          (\<forall>i < length xs. format_row (Suc k + i) (xs ! i) = Inr (rows ! i))"
      then obtain rows where rows: "print_rows (Suc k) xs = (map Stdout rows, Inr ())"
        "length rows = length xs"
        "\<forall>i < length xs. format_row (Suc k + i) (xs ! i) = Inr (rows ! i)"
        by blast
      have "\<forall>i < length (x # xs). format_row (k + i) ((x # xs) ! i) = Inr ((line # rows) ! i)"
      proof (intro allI impI)
        fix i assume "i < length (x # xs)"
        then show "format_row (k + i) ((x # xs) ! i) = Inr ((line # rows) ! i)"
          using Inr rows(3) by (cases i) auto
      qed
      moreover have "print_rows k (x # xs) = (map Stdout (line # rows), Inr ())"
        using Inr rows(1) by (simp add: io_bind_Inr)
      ultimately show ?thesis using rows(2)
        by (metis length_Cons)
    next
      assume "snd (print_rows (Suc k) xs) = Inl TypeError"
      with Inr show ?thesis by (simp add: io_bind_Inr)
    qed
  qed
qed

lemma select_loop_events: "set (fst (select_loop shown lines)) \<subseteq> loop_events shown"
  by (induction lines) (auto simp: io_bind_Inr loop_events_def split: option.splits)

lemma select_loop_error: "snd (select_loop shown lines) = Inl e \<Longrightarrow> e = EOFError"
  by (induction lines) (auto simp: io_bind_Inr split: option.splits if_splits)

lemma select_loop_invalid:
  "invalid_line (length shown) l \<Longrightarrow>
   \<exists>msg. msg \<in> {''Please enter a number.'', ''Out of range, try again.''} \<and>
     select_loop shown (l # rest) =
       (Prompt (select_prompt shown) # Stdout msg # fst (select_loop shown rest),
        snd (select_loop shown rest))"
  by (auto simp: invalid_line_def io_bind_Inr split: option.splits)

lemma select_loop_valid:
  "valid_choice (length shown) l c \<Longrightarrow>
   select_loop shown (l # rest) = ([Prompt (select_prompt shown)], Inr (shown ! nat (c - 1)))"
  by (simp add: valid_choice_def)

lemma select_loop_skips:
  assumes "\<forall>l \<in> set bad. invalid_line (length shown) l"
    and "valid_choice (length shown) good c"
  shows "snd (select_loop shown (bad @ good # rest)) = Inr (shown ! nat (c - 1))
    \<and> length (filter is_prompt (fst (select_loop shown (bad @ good # rest)))) = Suc (length bad)"
  using assms(1)
proof (induction bad)
  case Nil
  show ?case by (simp del: select_loop.simps add: select_loop_valid [OF assms(2)])
next
  case (Cons b bad)
  from Cons.prems have "invalid_line (length shown) b" by simp
  from select_loop_invalid [OF this, of "bad @ good # rest"] Cons show ?case
    by (auto simp del: select_loop.simps)
qed

lemma py_slice_to_nonneg: "0 \<le> m \<Longrightarrow> py_slice_to xs m = take (nat m) xs"
  by (simp add: py_slice_to_def)

lemma choose_server_unfold:
  assumes "servers \<noteq> []"
  shows "choose_server servers m lines =
     ([Stdout [],
       Stdout (''Found '' @ dec_nat (length servers) @ '' WireGuard-capable servers.''),
       Stdout (''Showing up to '' @ str_int m), Stdout []]
      @ fst (print_rows 1 (py_slice_to servers m))
      @ (case snd (print_rows 1 (py_slice_to servers m)) of
           Inl e \<Rightarrow> []
         | Inr _ \<Rightarrow> Stdout [] # fst (select_loop (py_slice_to servers m) lines)),
      case snd (print_rows 1 (py_slice_to servers m)) of
        Inl e \<Rightarrow> Inl e
      | Inr _ \<Rightarrow> snd (select_loop (py_slice_to servers m) lines))"
  using assms
  by (cases "print_rows 1 (py_slice_to servers m)"; cases "snd (print_rows 1 (py_slice_to servers m))")
     (auto simp: choose_server_def io_bind_Inr io_bind_Inl Let_def)

text \<open>
  C3, as amended. For every server list, every \<open>max_to_show\<close> that is not negative and
  every input, unless formatting a row raises \<^verbatim>\<open>TypeError\<close>: an empty list prints the error
  and exits with status 1; otherwise the table that follows the four header lines has one
  row for each of the first \<open>max_to_show\<close> servers (all of them when the list is shorter), in
  list order and numbered from 1, nothing but the blank line, prompts and retry messages
  follows it, and a valid choice \<open>c\<close> that follows only invalid lines returns the \<open>c\<close>-th of
  those servers.
\<close>

theorem choose_server_shows_first_entries:
  assumes "0 \<le> m" and "snd (choose_server servers m lines) \<noteq> Inl TypeError"
  shows "(servers = [] \<longrightarrow>
       choose_server servers m lines =
         ([Stderr ''No matching WireGuard servers found.''], Inl (SystemExit 1)))
     \<and> (servers \<noteq> [] \<longrightarrow>
       (\<exists>rows tail.
          fst (choose_server servers m lines) =
            [Stdout [],
             Stdout (''Found '' @ dec_nat (length servers) @ '' WireGuard-capable servers.''),
             Stdout (''Showing up to '' @ str_int m), Stdout []]
            @ map Stdout rows @ Stdout [] # tail
        \<and> length rows = min (nat m) (length servers)
        \<and> (\<forall>i < length rows. format_row (Suc i) (servers ! i) = Inr (rows ! i))
        \<and> set tail \<subseteq> loop_events (take (nat m) servers)
        \<and> (\<forall>bad good c rest.
              lines = bad @ good # rest \<and> (\<forall>l \<in> set bad. invalid_line (length rows) l)
              \<and> valid_choice (length rows) good c \<longrightarrow>
              snd (choose_server servers m lines) = Inr (servers ! nat (c - 1)))))"
proof (cases "servers = []")
  case True
  then show ?thesis by (simp add: choose_server_empty)
next
  case False
  let ?shown = "take (nat m) servers"
  note unfold = choose_server_unfold [OF False, of m lines, unfolded py_slice_to_nonneg [OF assms(1)]]
  from print_rows_cases [of 1 ?shown] assms(2) unfold obtain rows where
    rows: "print_rows 1 ?shown = (map Stdout rows, Inr ())" "length rows = length ?shown"
      "\<forall>i < length ?shown. format_row (1 + i) (?shown ! i) = Inr (rows ! i)"
    by auto
  have out: "fst (choose_server servers m lines) =
            [Stdout [],
             Stdout (''Found '' @ dec_nat (length servers) @ '' WireGuard-capable servers.''),
             Stdout (''Showing up to '' @ str_int m), Stdout []]
            @ map Stdout rows @ Stdout [] # fst (select_loop ?shown lines)"
    and res: "snd (choose_server servers m lines) = snd (select_loop ?shown lines)"
    using unfold rows(1) by simp_all
  have len: "length rows = min (nat m) (length servers)"
    using rows(2) by (simp add: min.commute)
  have fmt: "\<forall>i < length rows. format_row (Suc i) (servers ! i) = Inr (rows ! i)"
    using rows(2,3) by simp
  have sel: "snd (choose_server servers m lines) = Inr (servers ! nat (c - 1))"
    if "lines = bad @ good # rest" "\<forall>l \<in> set bad. invalid_line (length rows) l"
      "valid_choice (length rows) good c" for bad good c rest
  proof -
    from that(3) have c: "1 \<le> c" "nat (c - 1) < length ?shown"
      using rows(2) by (auto simp: valid_choice_def)
    from select_loop_skips [of bad ?shown good c rest] that rows(2)
    have "snd (select_loop ?shown lines) = Inr (?shown ! nat (c - 1))" by simp
    with c res show ?thesis by simp
  qed
  from out len fmt sel select_loop_events [of ?shown lines] False show ?thesis
    by blast
qed

lemma example_rows:
  "format_row k (example_server c n) =
     Inr (''['' @ rjust 3 (dec_nat k) @ ''] '' @ ljust 15 c @ '' '' @ ljust 15 [] @ '' ''
          @ ljust 20 n @ '' '' @ ljust 22 (n @ ''.nordvpn.com'') @ '' load='' @ '' 10''
          @ ''%  ip=1.2.3.4'')"
  by (simp add: format_row_def example_server_def str_int_def dec_nat.simps rjust_def)

lemma py_int_examples:
  "py_int (py_strip ''abc'') = None" "py_int (py_strip ''7'') = Some 7"
  "py_int (py_strip ''2'') = Some 2" "py_int (py_strip ''1'') = Some 1"
  by code_simp+

lemma choose_server_negative_max_example:
  "choose_server [example_server ''Albania'' ''al1'', example_server ''Germany'' ''de1''] (- 1) [''1'']
   = ([Stdout [], Stdout ''Found 2 WireGuard-capable servers.'', Stdout ''Showing up to -1'',
       Stdout [],
       Stdout ''[  1] Albania                         al1                  al1.nordvpn.com        load= 10%  ip=1.2.3.4'',
       Stdout [], Prompt ''Select server [1-1]: ''],
      Inr (example_server ''Albania'' ''al1''))"
  by (simp add: choose_server_def py_slice_to_def io_bind_Inr example_rows py_int_examples
      select_prompt_def dec_nat.simps str_int_def rjust_def ljust_def eval_nat_numeral)

lemma choose_server_two_of_three:
  "snd (choose_server [example_server ''Albania'' ''al1'', example_server ''Germany'' ''de1'',
          example_server ''Norway'' ''no1''] 2 [''abc'', ''2''])
   = Inr (example_server ''Germany'' ''de1'')"
proof -
  have "snd (print_rows k [example_server ''Albania'' ''al1'', example_server ''Germany'' ''de1''])
      = Inr ()" for k
    by (simp add: io_bind_snd example_rows)
  then show ?thesis
    unfolding choose_server_unfold [OF list.distinct(2)]
    by (simp add: py_slice_to_def py_int_examples io_bind_snd del: print_rows.simps)
qed

theorem choose_server_shows_first_entries_witness:
  "(0::int) \<le> 2
   \<and> snd (choose_server [example_server ''Albania'' ''al1'', example_server ''Germany'' ''de1'',
          example_server ''Norway'' ''no1''] 2 [''abc'', ''2'']) \<noteq> Inl TypeError
   \<and> (\<exists>rows tail.
        fst (choose_server [example_server ''Albania'' ''al1'', example_server ''Germany'' ''de1'',
          example_server ''Norway'' ''no1''] 2 [''abc'', ''2'']) =
          [Stdout [], Stdout ''Found 3 WireGuard-capable servers.'', Stdout ''Showing up to 2'',
           Stdout []] @ map Stdout rows @ Stdout [] # tail
        \<and> length rows = 2
        \<and> format_row 1 (example_server ''Albania'' ''al1'') = Inr (rows ! 0)
        \<and> format_row 2 (example_server ''Germany'' ''de1'') = Inr (rows ! 1)
        \<and> invalid_line (length rows) ''abc'' \<and> valid_choice (length rows) ''2'' 2)
   \<and> snd (choose_server [example_server ''Albania'' ''al1'', example_server ''Germany'' ''de1'',
          example_server ''Norway'' ''no1''] 2 [''abc'', ''2''])
     = Inr ([example_server ''Albania'' ''al1'', example_server ''Germany'' ''de1'',
          example_server ''Norway'' ''no1''] ! nat (2 - 1))"
proof -
  let ?S = "[example_server ''Albania'' ''al1'', example_server ''Germany'' ''de1'',
          example_server ''Norway'' ''no1'']"
  let ?L = "[''abc'', ''2'']"
  have ok: "snd (choose_server ?S 2 ?L) \<noteq> Inl TypeError"
    by (simp add: choose_server_two_of_three)
  have "(0::int) \<le> 2" by simp
  from choose_server_shows_first_entries [OF this ok] obtain rows tail where
    out: "fst (choose_server ?S 2 ?L) =
            [Stdout [], Stdout (''Found '' @ dec_nat (length ?S) @ '' WireGuard-capable servers.''),
             Stdout (''Showing up to '' @ str_int 2), Stdout []]
            @ map Stdout rows @ Stdout [] # tail"
    and len: "length rows = min (nat 2) (length ?S)"
    and fmt: "\<forall>i < length rows. format_row (Suc i) (?S ! i) = Inr (rows ! i)"
    and sel: "\<forall>bad good c rest.
              ?L = bad @ good # rest \<and> (\<forall>l \<in> set bad. invalid_line (length rows) l)
              \<and> valid_choice (length rows) good c \<longrightarrow>
              snd (choose_server ?S 2 ?L) = Inr (?S ! nat (c - 1))"
    by auto
  from len have len2: "length rows = 2" by simp
  have bad: "invalid_line (length rows) ''abc''" and good: "valid_choice (length rows) ''2'' 2"
    by (simp_all add: len2 invalid_line_def valid_choice_def py_int_examples)
  from sel [rule_format, of "[''abc'']" "''2''" "[]" 2] bad good
  have res: "snd (choose_server ?S 2 ?L) = Inr (?S ! nat (2 - 1))" by simp
  from fmt len2 have "format_row 1 (?S ! 0) = Inr (rows ! 0)" "format_row 2 (?S ! 1) = Inr (rows ! 1)"
    by (auto simp: eval_nat_numeral)
  with out len2 bad good res ok show ?thesis
    by (auto simp: dec_nat.simps str_int_def)
qed

text \<open>
  The claim C3 as it is written fails for a negative \<open>max_to_show\<close>: with two servers and
  \<open>max_to_show = -1\<close> the slice drops the last server, so one row is displayed and can be
  chosen, while the first \<open>-1\<close> entries of the list are no entries at all.
\<close>

theorem choose_server_negative_max_counterexample:
  "choose_server [example_server ''Albania'' ''al1'', example_server ''Germany'' ''de1''] (- 1) [''1'']
   = ([Stdout [], Stdout ''Found 2 WireGuard-capable servers.'', Stdout ''Showing up to -1'',
       Stdout [],
       Stdout ''[  1] Albania                         al1                  al1.nordvpn.com        load= 10%  ip=1.2.3.4'',
       Stdout [], Prompt ''Select server [1-1]: ''],
      Inr (example_server ''Albania'' ''al1''))
   \<and> take (nat (- 1)) [example_server ''Albania'' ''al1'', example_server ''Germany'' ''de1''] = []"
  using choose_server_negative_max_example by simp

text \<open>
  C8. With three displayed servers and the input lines \<^verbatim>\<open>abc\<close>, \<^verbatim>\<open>7\<close>, \<^verbatim>\<open>2\<close>, the table
  is followed by the prompt, the retry message for a line that is no number, the prompt
  again, the retry message for a number out of range, and the prompt a third time; the
  second displayed server is returned. For every number of invalid lines before a valid one,
  the loop prompts once more than there are invalid lines and returns the chosen server.
\<close>

theorem choose_server_reprompts_until_valid:
  assumes "servers \<noteq> []" and "length (py_slice_to servers m) = 3"
    and "print_rows 1 (py_slice_to servers m) = (table, Inr ())"
  shows "choose_server servers m [''abc'', ''7'', ''2''] =
      ([Stdout [],
        Stdout (''Found '' @ dec_nat (length servers) @ '' WireGuard-capable servers.''),
        Stdout (''Showing up to '' @ str_int m), Stdout []]
       @ table
       @ [Stdout [],
          Prompt ''Select server [1-3]: '', Stdout ''Please enter a number.'',
          Prompt ''Select server [1-3]: '', Stdout ''Out of range, try again.'',
          Prompt ''Select server [1-3]: ''],
       Inr (py_slice_to servers m ! 1))
    \<and> (\<forall>bad good c rest.
          (\<forall>l \<in> set bad. invalid_line 3 l) \<and> valid_choice 3 good c \<longrightarrow>
          snd (choose_server servers m (bad @ good # rest)) = Inr (py_slice_to servers m ! nat (c - 1))
          \<and> length (filter is_prompt (fst (choose_server servers m (bad @ good # rest))))
              = Suc (length bad))"
proof -
  let ?shown = "py_slice_to servers m"
  have p: "select_prompt ?shown = ''Select server [1-3]: ''"
    by (simp add: select_prompt_def assms(2) dec_nat.simps)
  have 1: "choose_server servers m [''abc'', ''7'', ''2''] =
      ([Stdout [],
        Stdout (''Found '' @ dec_nat (length servers) @ '' WireGuard-capable servers.''),
        Stdout (''Showing up to '' @ str_int m), Stdout []]
       @ table
       @ [Stdout [],
          Prompt ''Select server [1-3]: '', Stdout ''Please enter a number.'',
          Prompt ''Select server [1-3]: '', Stdout ''Out of range, try again.'',
          Prompt ''Select server [1-3]: ''],
       Inr (?shown ! 1))"
    unfolding choose_server_unfold [OF assms(1)] assms(3)
    by (simp add: assms(2) p py_int_examples io_bind_Inr)
  from print_rows_cases [of 1 ?shown] assms(3) obtain rows where "table = map Stdout rows"
    by auto
  then have t: "filter is_prompt table = []"
    by (induction rows arbitrary: table) auto
  have 2: "snd (choose_server servers m (bad @ good # rest)) = Inr (?shown ! nat (c - 1))
          \<and> length (filter is_prompt (fst (choose_server servers m (bad @ good # rest))))
              = Suc (length bad)"
    if "\<forall>l \<in> set bad. invalid_line 3 l" "valid_choice 3 good c" for bad good c rest
    using select_loop_skips [of bad ?shown good c rest] that t
    unfolding choose_server_unfold [OF assms(1)] assms(3)
    by (simp add: assms(2))
  from 1 2 show ?thesis by blast
qed

lemma print_rows_three:
  "print_rows 1 [example_server ''Albania'' ''al1'', example_server ''Germany'' ''de1'',
       example_server ''Norway'' ''no1''] =
     ([Stdout ''[  1] Albania                         al1                  al1.nordvpn.com        load= 10%  ip=1.2.3.4'',
       Stdout ''[  2] Germany                         de1                  de1.nordvpn.com        load= 10%  ip=1.2.3.4'',
       Stdout ''[  3] Norway                          no1                  no1.nordvpn.com        load= 10%  ip=1.2.3.4''],
      Inr ())"
  by (simp add: io_bind_Inr example_rows dec_nat.simps rjust_def ljust_def eval_nat_numeral)

theorem choose_server_reprompts_until_valid_witness:
  "choose_server [example_server ''Albania'' ''al1'', example_server ''Germany'' ''de1'',
       example_server ''Norway'' ''no1''] 50 [''abc'', ''7'', ''2''] =
     ([Stdout [], Stdout ''Found 3 WireGuard-capable servers.'', Stdout ''Showing up to 50'',
       Stdout [],
       Stdout ''[  1] Albania                         al1                  al1.nordvpn.com        load= 10%  ip=1.2.3.4'',
       Stdout ''[  2] Germany                         de1                  de1.nordvpn.com        load= 10%  ip=1.2.3.4'',
       Stdout ''[  3] Norway                          no1                  no1.nordvpn.com        load= 10%  ip=1.2.3.4'',
       Stdout [],
       Prompt ''Select server [1-3]: '', Stdout ''Please enter a number.'',
       Prompt ''Select server [1-3]: '', Stdout ''Out of range, try again.'',
       Prompt ''Select server [1-3]: ''],
      Inr (example_server ''Germany'' ''de1''))
   \<and> invalid_line 3 ''abc'' \<and> invalid_line 3 ''7'' \<and> valid_choice 3 ''2'' 2
   \<and> length (filter is_prompt (fst (choose_server [example_server ''Albania'' ''al1'',
         example_server ''Germany'' ''de1'', example_server ''Norway'' ''no1''] 50
         ([''abc'', ''7''] @ ''2'' # [])))) = 3"
proof -
  let ?S = "[example_server ''Albania'' ''al1'', example_server ''Germany'' ''de1'',
       example_server ''Norway'' ''no1'']"
  have ne: "?S \<noteq> []" by simp
  have sl: "py_slice_to ?S 50 = ?S" by (simp add: py_slice_to_def)
  have len: "length (py_slice_to ?S 50) = 3" by (simp add: sl)
  have rows: "print_rows 1 (py_slice_to ?S 50) =
     ([Stdout ''[  1] Albania                         al1                  al1.nordvpn.com        load= 10%  ip=1.2.3.4'',
       Stdout ''[  2] Germany                         de1                  de1.nordvpn.com        load= 10%  ip=1.2.3.4'',
       Stdout ''[  3] Norway                          no1                  no1.nordvpn.com        load= 10%  ip=1.2.3.4''],
      Inr ())"
    by (simp only: sl print_rows_three)
  have bad: "invalid_line 3 ''abc''" "invalid_line 3 ''7''" and good: "valid_choice 3 ''2'' 2"
    by (simp_all add: invalid_line_def valid_choice_def py_int_examples)
  note inst = choose_server_reprompts_until_valid [OF ne len rows]
  from inst have 1: "choose_server ?S 50 [''abc'', ''7'', ''2''] =
      ([Stdout [],
        Stdout (''Found '' @ dec_nat (length ?S) @ '' WireGuard-capable servers.''),
        Stdout (''Showing up to '' @ str_int 50), Stdout []]
       @ [Stdout ''[  1] Albania                         al1                  al1.nordvpn.com        load= 10%  ip=1.2.3.4'',
       Stdout ''[  2] Germany                         de1                  de1.nordvpn.com        load= 10%  ip=1.2.3.4'',
       Stdout ''[  3] Norway                          no1                  no1.nordvpn.com        load= 10%  ip=1.2.3.4'']
       @ [Stdout [],
          Prompt ''Select server [1-3]: '', Stdout ''Please enter a number.'',
          Prompt ''Select server [1-3]: '', Stdout ''Out of range, try again.'',
          Prompt ''Select server [1-3]: ''],
       Inr (py_slice_to ?S 50 ! 1))" by blast
  from inst have "\<forall>bad good c rest.
          (\<forall>l \<in> set bad. invalid_line 3 l) \<and> valid_choice 3 good c \<longrightarrow>
          snd (choose_server ?S 50 (bad @ good # rest)) = Inr (py_slice_to ?S 50 ! nat (c - 1))
          \<and> length (filter is_prompt (fst (choose_server ?S 50 (bad @ good # rest))))
              = Suc (length bad)" by blast
  from this [rule_format, of "[''abc'', ''7'']" "''2''" 2 "[]"] bad good
  have 2: "length (filter is_prompt (fst (choose_server ?S 50 ([''abc'', ''7''] @ ''2'' # []))))
     = 3" by simp
  have d: "dec_nat (Suc (Suc (Suc 0))) = ''3''" "str_int 50 = ''50''"
    by (simp_all add: dec_nat.simps str_int_def)
  from 1 2 bad good show ?thesis
    by (simp add: sl d)
qed

subsection \<open>The configuration text\<close>

lemma split_lines_nonempty: "split_lines s \<noteq> []"
  by (induction s) (auto split: list.splits)

lemma split_lines_no_newline: "NL \<notin> set a \<Longrightarrow> split_lines a = [a]"
  by (induction a) auto

lemma split_lines_append_newline:
  "NL \<notin> set a \<Longrightarrow> split_lines (a @ NL # b) = a # split_lines b"
  by (induction a) (auto split: list.splits)

lemma split_lines_join:
  "ls \<noteq> [] \<Longrightarrow> \<forall>l \<in> set ls. NL \<notin> set l \<Longrightarrow> split_lines (py_join [NL] ls) = ls"
  by (induction "[NL]" ls rule: py_join.induct)
     (auto simp: split_lines_no_newline split_lines_append_newline)

lemma set_split_lines: "c \<in> set s \<Longrightarrow> c \<noteq> NL \<Longrightarrow> \<exists>l \<in> set (split_lines s). c \<in> set l"
  by (induction s) (auto split: list.splits)

lemma set_py_join: "l \<in> set ls \<Longrightarrow> set l \<subseteq> set (py_join sep ls)"
  by (induction sep ls rule: py_join.induct) auto

lemma common_margin_indent:
  "\<forall>i \<in> set is. \<forall>c \<in> set i. is_indent c \<Longrightarrow> \<forall>c \<in> set (common_margin is). is_indent c"
proof (induction "is" rule: common_margin.induct)
  case (3 i j "is")
  have "prefix (longest_common_prefix i j) i" by (rule longest_common_prefix_prefix1)
  then have "set (longest_common_prefix i j) \<subseteq> set i" by (rule set_mono_prefix)
  with 3 show ?case by auto
qed auto

lemma dedent_keeps:
  assumes "c \<in> set s" and "c \<noteq> NL" and "\<not> is_indent c"
  shows "c \<in> set (dedent s)"
proof -
  from set_split_lines [OF assms(1,2)] obtain l where l: "l \<in> set (split_lines s)" "c \<in> set l"
    by blast
  define lines where "lines = map (\<lambda>l. if list_all is_indent l then [] else l) (split_lines s)"
  define margin where
    "margin = common_margin (map (takeWhile is_indent) (filter (\<lambda>l. \<not> list_all is_indent l) lines))"
  from l assms(3) have "\<not> list_all is_indent l" by (auto simp: list_all_iff)
  with l(1) have in_lines: "l \<in> set lines" by (force simp: lines_def)
  have "\<forall>c \<in> set margin. is_indent c"
    unfolding margin_def
    by (rule common_margin_indent) (auto dest: set_takeWhileD)
  with assms(3) have notin: "c \<notin> set margin" by blast
  have "c \<in> set (if margin \<noteq> [] \<and> prefix margin l then drop (length margin) l else l)"
  proof (cases "margin \<noteq> [] \<and> prefix margin l")
    case True
    then obtain r where "l = margin @ r" by (auto simp: prefix_def)
    with l(2) notin show ?thesis using True by auto
  next
    case False
    with l(2) show ?thesis by auto
  qed
  moreover have "(if margin \<noteq> [] \<and> prefix margin l then drop (length margin) l else l)
      \<in> set (map (\<lambda>l. if margin \<noteq> [] \<and> prefix margin l then drop (length margin) l else l) lines)"
    using in_lines by auto
  ultimately have "c \<in> set (py_join [NL]
      (map (\<lambda>l. if margin \<noteq> [] \<and> prefix margin l then drop (length margin) l else l) lines))"
    using set_py_join by blast
  then show ?thesis
    by (simp only: dedent_def Let_def lines_def margin_def)
qed

lemma py_strip_ends:
  assumes "c \<in> set s" and "\<not> py_isspace c"
  shows "py_strip s \<noteq> [] \<and> \<not> py_isspace (hd (py_strip s)) \<and> \<not> py_isspace (last (py_strip s))"
proof -
  define y where "y = dropWhile py_isspace s"
  define z where "z = dropWhile py_isspace (rev y)"
  from assms have "y \<noteq> []"
    unfolding y_def by (auto simp: dropWhile_eq_Nil_conv)
  with hd_dropWhile [of py_isspace s] have y: "y \<noteq> []" "\<not> py_isspace (hd y)"
    by (simp_all add: y_def)
  then have "\<exists>x \<in> set (rev y). \<not> py_isspace x"
    by (metis hd_in_set set_rev)
  then have "z \<noteq> []"
    unfolding z_def by (auto simp: dropWhile_eq_Nil_conv)
  with hd_dropWhile [of py_isspace "rev y"] have z: "z \<noteq> []" "\<not> py_isspace (hd z)"
    by (simp_all add: z_def)
  have "rev y = takeWhile py_isspace (rev y) @ z"
    by (simp add: z_def)
  with z(1) have "last z = last (rev y)"
    by (metis last_appendR)
  with y have last_z: "\<not> py_isspace (last z)"
    by (simp add: last_rev)
  have "py_strip s = rev z" by (simp add: py_strip_def y_def z_def)
  with z last_z show ?thesis
    by (simp add: hd_rev last_rev)
qed

lemma dedent_template:
  assumes "NL \<notin> set pk" and "NL \<notin> set pub" and "NL \<notin> set ip'"
  shows "dedent (py_join [NL]
      [[], ''        [Interface]'', ''        PrivateKey = '' @ pk,
       ''        Address    = 10.5.0.2/32'', ''        DNS        = 103.86.96.100, 103.86.99.100'',
       [], ''        [Peer]'', ''        PublicKey           = '' @ pub,
       ''        AllowedIPs         = 0.0.0.0/0, ::/0'',
       ''        Endpoint           = '' @ ip' @ '':51820'',
       ''        PersistentKeepalive = 25'', ''        ''])
    = py_join [NL]
      [[], ''[Interface]'', ''PrivateKey = '' @ pk,
       ''Address    = 10.5.0.2/32'', ''DNS        = 103.86.96.100, 103.86.99.100'',
       [], ''[Peer]'', ''PublicKey           = '' @ pub,
       ''AllowedIPs         = 0.0.0.0/0, ::/0'',
       ''Endpoint           = '' @ ip' @ '':51820'',
       ''PersistentKeepalive = 25'', []]"
proof -
  have "split_lines (py_join [NL]
      [[], ''        [Interface]'', ''        PrivateKey = '' @ pk,
       ''        Address    = 10.5.0.2/32'', ''        DNS        = 103.86.96.100, 103.86.99.100'',
       [], ''        [Peer]'', ''        PublicKey           = '' @ pub,
       ''        AllowedIPs         = 0.0.0.0/0, ::/0'',
       ''        Endpoint           = '' @ ip' @ '':51820'',
       ''        PersistentKeepalive = 25'', ''        ''])
    = [[], ''        [Interface]'', ''        PrivateKey = '' @ pk,
       ''        Address    = 10.5.0.2/32'', ''        DNS        = 103.86.96.100, 103.86.99.100'',
       [], ''        [Peer]'', ''        PublicKey           = '' @ pub,
       ''        AllowedIPs         = 0.0.0.0/0, ::/0'',
       ''        Endpoint           = '' @ ip' @ '':51820'',
       ''        PersistentKeepalive = 25'', ''        '']"
    using assms by (intro split_lines_join) simp_all
  then show ?thesis
    unfolding dedent_def
    by (simp add: Let_def is_indent_def del: py_join.simps)
qed

lemma py_strip_rendered:
  "py_strip (py_join [NL]
      [[], ''[Interface]'', ''PrivateKey = '' @ pk,
       ''Address    = 10.5.0.2/32'', ''DNS        = 103.86.96.100, 103.86.99.100'',
       [], ''[Peer]'', ''PublicKey           = '' @ pub,
       ''AllowedIPs         = 0.0.0.0/0, ::/0'',
       ''Endpoint           = '' @ ip' @ '':51820'',
       ''PersistentKeepalive = 25'', []]) @ [NL]
   = rendered pk pub ip'"
  by (simp add: py_strip_def py_isspace_def rendered_def)

lemma build_wireguard_config_rendered:
  assumes "NL \<notin> set (py_str k)" and "NL \<notin> set (py_str (public_key s))"
    and "NL \<notin> set (py_str (ip s))"
  shows "build_wireguard_config k s = rendered (py_str k) (py_str (public_key s)) (py_str (ip s))"
proof -
  have "build_wireguard_config k s =
    py_strip (dedent (py_join [NL]
      [[], ''        [Interface]'', ''        PrivateKey = '' @ py_str k,
       ''        Address    = 10.5.0.2/32'', ''        DNS        = 103.86.96.100, 103.86.99.100'',
       [], ''        [Peer]'', ''        PublicKey           = '' @ py_str (public_key s),
       ''        AllowedIPs         = 0.0.0.0/0, ::/0'',
       ''        Endpoint           = '' @ py_str (ip s) @ '':51820'',
       ''        PersistentKeepalive = 25'', ''        ''])) @ [NL]"
    by (simp add: build_wireguard_config_def)
  also have "\<dots> = rendered (py_str k) (py_str (public_key s)) (py_str (ip s))"
    by (simp only: dedent_template [OF assms] py_strip_rendered)
  finally show ?thesis .
qed

lemma py_strip_Cons:
  assumes "\<not> py_isspace c"
  shows "\<exists>t. py_strip (c # r) = c # t"
proof -
  have "dropWhile py_isspace (rev r @ [c]) = dropWhile py_isspace (rev r) @ [c]"
    using assms by (simp add: dropWhile_append)
  with assms show ?thesis by (simp add: py_strip_def)
qed

lemma py_strip_Cons_neq:
  "\<not> py_isspace c \<Longrightarrow> c \<noteq> h \<Longrightarrow> py_strip (c # r) \<noteq> h # hs"
  using py_strip_Cons [of c r] by auto

lemma section_count_rendered:
  assumes "NL \<notin> set pk" and "NL \<notin> set pub" and "NL \<notin> set ip'"
  shows "section_count ''[Interface]'' (rendered pk pub ip') = 1"
    and "section_count ''[Peer]'' (rendered pk pub ip') = 1"
proof -
  have r: "rendered pk pub ip' = py_join [NL]
      [''[Interface]'', ''PrivateKey = '' @ pk,
       ''Address    = 10.5.0.2/32'', ''DNS        = 103.86.96.100, 103.86.99.100'',
       [], ''[Peer]'', ''PublicKey           = '' @ pub,
       ''AllowedIPs         = 0.0.0.0/0, ::/0'',
       ''Endpoint           = '' @ ip' @ '':51820'',
       ''PersistentKeepalive = 25'', []]"
    by (simp add: rendered_def)
  have l: "split_lines (rendered pk pub ip') =
      [''[Interface]'', ''PrivateKey = '' @ pk,
       ''Address    = 10.5.0.2/32'', ''DNS        = 103.86.96.100, 103.86.99.100'',
       [], ''[Peer]'', ''PublicKey           = '' @ pub,
       ''AllowedIPs         = 0.0.0.0/0, ::/0'',
       ''Endpoint           = '' @ ip' @ '':51820'',
       ''PersistentKeepalive = 25'', []]"
    unfolding r using assms by (intro split_lines_join) simp_all
  have i: "py_strip ''[Interface]'' = ''[Interface]''" and p: "py_strip ''[Peer]'' = ''[Peer]''"
    and e: "py_strip [] = []"
    by (simp_all add: py_strip_def py_isspace_def)
  have sp: "\<not> py_isspace CHR ''P''" "\<not> py_isspace CHR ''A''" "\<not> py_isspace CHR ''D''"
    "\<not> py_isspace CHR ''E''"
    by (simp_all add: py_isspace_def)
  show "section_count ''[Interface]'' (rendered pk pub ip') = 1"
    unfolding section_count_def l
    by (simp add: i p e py_strip_Cons_neq sp del: py_join.simps)
  show "section_count ''[Peer]'' (rendered pk pub ip') = 1"
    unfolding section_count_def l
    by (simp add: i p e py_strip_Cons_neq sp del: py_join.simps)
qed

lemma build_wireguard_config_ends:
  "\<exists>body. build_wireguard_config k s = body @ [NL] \<and> body \<noteq> []
     \<and> \<not> py_isspace (last body) \<and> \<not> py_isspace (hd body)"
proof -
  define text' where "text' =
    ''\<newline>        [Interface]\<newline>        PrivateKey = '' @ py_str k
            @ ''\<newline>        Address    = '' @ ''10.5.0.2/32''
            @ ''\<newline>        DNS        = '' @ ''103.86.96.100, 103.86.99.100''
            @ ''\<newline>\<newline>        [Peer]\<newline>        PublicKey           = ''
            @ py_str (public_key s)
            @ ''\<newline>        AllowedIPs         = 0.0.0.0/0, ::/0\<newline>        Endpoint           = ''
            @ py_str (ip s)
            @ '':51820\<newline>        PersistentKeepalive = 25\<newline>        ''"
  have b: "build_wireguard_config k s = py_strip (dedent text') @ [NL]"
    by (simp add: build_wireguard_config_def text'_def)
  have "CHR ''['' \<in> set text'" by (simp add: text'_def)
  then have "CHR ''['' \<in> set (dedent text')"
    by (rule dedent_keeps) (simp_all add: is_indent_def)
  moreover have "\<not> py_isspace CHR ''[''" by (simp add: py_isspace_def)
  ultimately have "py_strip (dedent text') \<noteq> [] \<and> \<not> py_isspace (hd (py_strip (dedent text')))
      \<and> \<not> py_isspace (last (py_strip (dedent text')))"
    by (rule py_strip_ends)
  with b show ?thesis by blast
qed

lemma build_wireguard_config_injected:
  "build_wireguard_config (JStr ''k\<newline>[Peer]'') (example_server ''Germany'' ''de1'') =
     ''[Interface]\<newline>        PrivateKey = k\<newline>[Peer]\<newline>        Address    = 10.5.0.2/32\<newline>        DNS        = 103.86.96.100, 103.86.99.100\<newline>\<newline>        [Peer]\<newline>        PublicKey           = ABC\<newline>        AllowedIPs         = 0.0.0.0/0, ::/0\<newline>        Endpoint           = 1.2.3.4:51820\<newline>        PersistentKeepalive = 25\<newline>''"
  by code_simp

text \<open>
  C6, as amended. The configuration text is a function of the private key and the server
  record alone. For every private key and record it ends with exactly one newline (the
  character before it is no white space) and does not start with white space. When the
  private key, the public key and the address, as they are written into the template, hold
  no newline, the text is the template with its margin removed, and it has exactly one
  line that is the header \<^verbatim>\<open>[Interface]\<close> and exactly one that is the header \<^verbatim>\<open>[Peer]\<close>.
\<close>

theorem build_wireguard_config_one_section_each:
  "(\<forall>k' s'. k' = k \<and> s' = s \<longrightarrow> build_wireguard_config k' s' = build_wireguard_config k s)
   \<and> (\<exists>body. build_wireguard_config k s = body @ [NL] \<and> body \<noteq> []
         \<and> \<not> py_isspace (last body) \<and> \<not> py_isspace (hd body))
   \<and> (NL \<notin> set (py_str k) \<and> NL \<notin> set (py_str (public_key s)) \<and> NL \<notin> set (py_str (ip s))
       \<longrightarrow> build_wireguard_config k s
             = rendered (py_str k) (py_str (public_key s)) (py_str (ip s))
         \<and> section_count ''[Interface]'' (build_wireguard_config k s) = 1
         \<and> section_count ''[Peer]'' (build_wireguard_config k s) = 1)"
  using build_wireguard_config_ends [of k s] build_wireguard_config_rendered [of k s]
    section_count_rendered [of "py_str k" "py_str (public_key s)" "py_str (ip s)"]
  by auto

theorem build_wireguard_config_one_section_each_witness:
  "NL \<notin> set (py_str (JStr ''PRIV'')) \<and> NL \<notin> set (py_str (public_key (example_server ''Germany'' ''de1'')))
   \<and> NL \<notin> set (py_str (ip (example_server ''Germany'' ''de1'')))
   \<and> build_wireguard_config (JStr ''PRIV'') (example_server ''Germany'' ''de1'') =
     ''[Interface]\<newline>PrivateKey = PRIV\<newline>Address    = 10.5.0.2/32\<newline>DNS        = 103.86.96.100, 103.86.99.100\<newline>\<newline>[Peer]\<newline>PublicKey           = ABC\<newline>AllowedIPs         = 0.0.0.0/0, ::/0\<newline>Endpoint           = 1.2.3.4:51820\<newline>PersistentKeepalive = 25\<newline>''
   \<and> section_count ''[Interface]''
       (build_wireguard_config (JStr ''PRIV'') (example_server ''Germany'' ''de1'')) = 1
   \<and> section_count ''[Peer]''
       (build_wireguard_config (JStr ''PRIV'') (example_server ''Germany'' ''de1'')) = 1"
proof -
  have n: "NL \<notin> set (py_str (JStr ''PRIV''))"
    "NL \<notin> set (py_str (public_key (example_server ''Germany'' ''de1'')))"
    "NL \<notin> set (py_str (ip (example_server ''Germany'' ''de1'')))"
    by (simp_all add: example_server_def)
  have r: "rendered (py_str (JStr ''PRIV'')) (py_str (public_key (example_server ''Germany'' ''de1'')))
      (py_str (ip (example_server ''Germany'' ''de1''))) =
     ''[Interface]\<newline>PrivateKey = PRIV\<newline>Address    = 10.5.0.2/32\<newline>DNS        = 103.86.96.100, 103.86.99.100\<newline>\<newline>[Peer]\<newline>PublicKey           = ABC\<newline>AllowedIPs         = 0.0.0.0/0, ::/0\<newline>Endpoint           = 1.2.3.4:51820\<newline>PersistentKeepalive = 25\<newline>''"
    by (simp add: rendered_def example_server_def)
  note inst = build_wireguard_config_one_section_each
    [of "JStr ''PRIV''" "example_server ''Germany'' ''de1''"]
  from inst n have a: "build_wireguard_config (JStr ''PRIV'') (example_server ''Germany'' ''de1'')
      = rendered (py_str (JStr ''PRIV'')) (py_str (public_key (example_server ''Germany'' ''de1'')))
          (py_str (ip (example_server ''Germany'' ''de1'')))"
    by blast
  from inst n have b: "section_count ''[Interface]''
       (build_wireguard_config (JStr ''PRIV'') (example_server ''Germany'' ''de1'')) = 1"
    by blast
  from inst n have c: "section_count ''[Peer]''
       (build_wireguard_config (JStr ''PRIV'') (example_server ''Germany'' ''de1'')) = 1"
    by blast
  show ?thesis by (intro conjI n a [unfolded r] b c)
qed

text \<open>
  The claim C6 as it is written fails for a private key that holds a newline: the key
  \<^verbatim>\<open>k\<close>, newline, \<^verbatim>\<open>[Peer]\<close> puts a second header line into the text (and, since that line
  has no margin, \<^verbatim>\<open>dedent\<close> removes none).
\<close>

theorem build_wireguard_config_newline_counterexample:
  "section_count ''[Peer]''
     (build_wireguard_config (JStr ''k\<newline>[Peer]'') (example_server ''Germany'' ''de1'')) = 2"
  unfolding build_wireguard_config_injected by code_simp

subsection \<open>The order of the catalogue\<close>

lemma has_string_keyE:
  assumes "has_string_key r"
  obtains a b c where "sort_tuple r = [JStr a, JStr b, JStr c]" "string_key r = (a, b, c)"
  using assms
  by (auto simp: has_string_key_def string_key_def sort_tuple_def split: json.splits)

lemma key_lt_string_key:
  assumes "has_string_key x" and "has_string_key y"
  shows "py_lt_list (sort_tuple x) (sort_tuple y) = Inr (string_key x < string_key y)"
proof -
  from assms(1) obtain a b c where x: "sort_tuple x = [JStr a, JStr b, JStr c]"
    "string_key x = (a, b, c)" by (rule has_string_keyE)
  from assms(2) obtain a' b' c' where y: "sort_tuple y = [JStr a', JStr b', JStr c']"
    "string_key y = (a', b', c')" by (rule has_string_keyE)
  show ?thesis unfolding x y by (rule key_lt_strings)
qed

lemma py_insort_string_keys:
  "has_string_key x \<Longrightarrow> \<forall>y \<in> set ys. has_string_key y \<Longrightarrow>
   py_insort x ys = Inr (insert_after x ys)"
  by (induction ys) (simp_all add: key_lt_string_key)

lemma set_insert_after: "set (insert_after x ys) = insert x (set ys)"
  by (induction ys) auto

lemma mset_insert_after: "mset (insert_after x ys) = add_mset x (mset ys)"
  by (induction ys) auto

lemma sorted_insert_after:
  "sorted (map string_key ys) \<Longrightarrow> sorted (map string_key (insert_after x ys))"
  by (induction ys) (auto simp: set_insert_after)

lemma filter_insert_after:
  "sorted (map string_key ys) \<Longrightarrow>
   filter (\<lambda>y. k = string_key y) (insert_after x ys) = filter (\<lambda>y. k = string_key y) (ys @ [x])"
proof (induction ys)
  case Nil
  then show ?case by simp
next
  case (Cons y ys)
  show ?case
  proof (cases "string_key x < string_key y")
    case True
    have "\<forall>z \<in> set (y # ys). string_key x < string_key z"
      using True Cons.prems by auto
    then have "k = string_key x \<Longrightarrow> filter (\<lambda>y. k = string_key y) (y # ys) = []"
      by (auto simp: filter_empty_conv)
    with True show ?thesis by auto
  next
    case False
    with Cons show ?thesis by auto
  qed
qed

lemma py_sort_from_string_keys:
  "\<forall>y \<in> set acc. has_string_key y \<Longrightarrow> \<forall>x \<in> set xs. has_string_key x \<Longrightarrow>
   py_sort_from acc xs = Inr (insert_all acc xs)"
  by (induction xs arbitrary: acc) (simp_all add: py_insort_string_keys set_insert_after)

lemma insert_all_properties:
  "sorted (map string_key acc) \<Longrightarrow>
   sorted (map string_key (insert_all acc xs))
   \<and> mset (insert_all acc xs) = mset acc + mset xs
   \<and> (\<forall>k. filter (\<lambda>y. k = string_key y) (insert_all acc xs)
          = filter (\<lambda>y. k = string_key y) (acc @ xs))"
proof (induction xs arbitrary: acc)
  case Nil
  then show ?case by simp
next
  case (Cons x xs)
  from Cons.IH [OF sorted_insert_after [OF Cons.prems, of x]] filter_insert_after [OF Cons.prems, of _ x]
  show ?case by (simp add: mset_insert_after)
qed

lemma insert_all_sort_key: "insert_all [] xs = sort_key string_key xs"
proof -
  from insert_all_properties [of "[]" xs]
  have s: "sorted (map string_key (insert_all [] xs))"
    and m: "mset (insert_all [] xs) = mset xs"
    and f: "\<forall>k. filter (\<lambda>y. k = string_key y) (insert_all [] xs) = filter (\<lambda>y. k = string_key y) xs"
    by simp_all
  show ?thesis
    by (rule properties_for_sort_key [symmetric]) (simp_all add: m f [rule_format] s)
qed

lemma py_sort_string_keys:
  "\<forall>x \<in> set xs. has_string_key x \<Longrightarrow> py_sort xs = Inr (sort_key string_key xs)"
  by (simp add: py_sort_def py_sort_from_string_keys insert_all_sort_key)

lemma extract_with_string_keys:
  assumes "extract_loop cf raw = Inr servers" and "\<forall>r \<in> set servers. has_string_key r"
  shows "extract_wireguard_servers (JArr raw) cf = Inr (sort_key string_key servers)"
  using assms by (simp add: extract_wireguard_servers_def py_sort_string_keys)

lemma extract_sorted_pair:
  assumes "extract_wireguard_servers all_servers cf = Inr res" and "Suc i < length res"
  shows "key_le (res ! i) (res ! Suc i) \<and>
    (\<forall>a1 a2 a3 b1 b2 b3.
       sort_tuple (res ! i) = [JStr a1, JStr a2, JStr a3] \<and>
       sort_tuple (res ! Suc i) = [JStr b1, JStr b2, JStr b3] \<longrightarrow>
       (a1, a2, a3) \<le> (b1, b2, b3))"
proof -
  from assms(1) obtain servers where "py_sort servers = Inr res"
    by (auto simp: extract_wireguard_servers_def bnd_Inr_iff)
  then have "py_sort_from [] servers = Inr res" by (simp add: py_sort_def)
  with py_sort_from_successively [of "[]" servers res] have "successively key_le res"
    by simp
  from this assms(2) have le: "key_le (res ! i) (res ! Suc i)" by (rule successively_nth)
  have "(a1, a2, a3) \<le> (b1, b2, b3)"
    if "sort_tuple (res ! i) = [JStr a1, JStr a2, JStr a3]"
      "sort_tuple (res ! Suc i) = [JStr b1, JStr b2, JStr b3]" for a1 a2 a3 b1 b2 b3
  proof -
    from le that have "py_lt_list [JStr b1, JStr b2, JStr b3] [JStr a1, JStr a2, JStr a3] = Inr False"
      by (simp add: key_le_def)
    then have "\<not> (b1, b2, b3) < (a1, a2, a3)"
      unfolding key_lt_strings by (simp only: sum.inject simp_thms)
    then show ?thesis by (simp only: not_less)
  qed
  with le show ?thesis by blast
qed

text \<open>
  C4. When the loop over the raw list returns records whose country, city and name are
  strings, \<^verbatim>\<open>extract_wireguard_servers\<close> returns, and what it returns is these records in the
  stable ascending order of the triples (country, city, name) of strings: a sorted
  permutation of them. Whatever the keys are, whenever the function returns, each element
  of the result sorts no later than its successor by the tuple (country, city, name); when
  the three components of both are strings, that is the lexicographic order of the triples
  of strings, compared character by character without case folding.
\<close>

theorem extract_sorted_by_country_city_name:
  "(extract_loop cf raw = Inr servers \<and> (\<forall>r \<in> set servers. has_string_key r) \<longrightarrow>
      extract_wireguard_servers (JArr raw) cf = Inr (sort_key string_key servers)
      \<and> sorted (map string_key (sort_key string_key servers))
      \<and> mset (sort_key string_key servers) = mset servers)
   \<and> (extract_wireguard_servers all_servers cf = Inr res \<and> Suc i < length res \<longrightarrow>
      key_le (res ! i) (res ! Suc i) \<and>
      (\<forall>a1 a2 a3 b1 b2 b3.
         sort_tuple (res ! i) = [JStr a1, JStr a2, JStr a3] \<and>
         sort_tuple (res ! Suc i) = [JStr b1, JStr b2, JStr b3] \<longrightarrow>
         (a1, a2, a3) \<le> (b1, b2, b3)))"
  using extract_with_string_keys [of cf raw servers] extract_sorted_pair [of all_servers cf res i]
  by simp

lemma extract_loop_example_two:
  "extract_loop None
     [example_entry ''online'' ''Germany'' ''de1'', example_entry ''offline'' ''Norway'' ''no1'',
      example_entry ''online'' ''Albania'' ''al1'']
   = Inr [example_server ''Germany'' ''de1'', example_server ''Albania'' ''al1'']"
  by (simp add: extract_entry_example)

theorem extract_sorted_by_country_city_name_witness:
  "extract_loop None
     [example_entry ''online'' ''Germany'' ''de1'', example_entry ''offline'' ''Norway'' ''no1'',
      example_entry ''online'' ''Albania'' ''al1'']
   = Inr [example_server ''Germany'' ''de1'', example_server ''Albania'' ''al1'']
   \<and> has_string_key (example_server ''Germany'' ''de1'')
   \<and> has_string_key (example_server ''Albania'' ''al1'')
   \<and> extract_wireguard_servers
     (JArr [example_entry ''online'' ''Germany'' ''de1'', example_entry ''offline'' ''Norway'' ''no1'',
            example_entry ''online'' ''Albania'' ''al1'']) None
     = Inr [example_server ''Albania'' ''al1'', example_server ''Germany'' ''de1'']
   \<and> key_le (example_server ''Albania'' ''al1'') (example_server ''Germany'' ''de1'')
   \<and> (''Albania'', '''', ''al1'') \<le> (''Germany'', '''', ''de1'')"
proof -
  let ?raw = "[example_entry ''online'' ''Germany'' ''de1'', example_entry ''offline'' ''Norway'' ''no1'',
      example_entry ''online'' ''Albania'' ''al1'']"
  let ?servers = "[example_server ''Germany'' ''de1'', example_server ''Albania'' ''al1'']"
  let ?res = "[example_server ''Albania'' ''al1'', example_server ''Germany'' ''de1'']"
  have k: "has_string_key (example_server c n)" "string_key (example_server c n) = (c, [], n)"
    "sort_tuple (example_server c n) = [JStr c, JStr [], JStr n]" for c n
    by (simp_all add: has_string_key_def string_key_def sort_tuple_def example_server_def)
  have s: "sort_key string_key ?servers = ?res"
    by (simp add: k)
  note inst = extract_sorted_by_country_city_name [of None ?raw ?servers "JArr ?raw" ?res 0]
  have hyp: "extract_loop None ?raw = Inr ?servers \<and> (\<forall>r \<in> set ?servers. has_string_key r)"
    using extract_loop_example_two k(1) by simp
  from inst hyp have "extract_wireguard_servers (JArr ?raw) None = Inr (sort_key string_key ?servers)"
    by blast
  then have r: "extract_wireguard_servers (JArr ?raw) None = Inr ?res"
    unfolding s .
  with inst have "key_le (?res ! 0) (?res ! Suc 0) \<and>
      (\<forall>a1 a2 a3 b1 b2 b3.
         sort_tuple (?res ! 0) = [JStr a1, JStr a2, JStr a3] \<and>
         sort_tuple (?res ! Suc 0) = [JStr b1, JStr b2, JStr b3] \<longrightarrow>
         (a1, a2, a3) \<le> (b1, b2, b3))"
    by simp
  then have "key_le (example_server ''Albania'' ''al1'') (example_server ''Germany'' ''de1'')"
    and "(''Albania'', '''', ''al1'') \<le> (''Germany'', '''', ''de1'')"
    by (simp_all add: k(3))
  with extract_loop_example_two k(1) r show ?thesis by blast
qed

subsection \<open>The country filter\<close>

lemma lower_char_eq_iff: "lower_char a = lower_char b \<longleftrightarrow> same_letter a b"
proof -
  have up: "char_of (of_char x + 32 :: nat) = y \<longleftrightarrow> (of_char y :: nat) = of_char x + 32"
    if "is_upper x" for x y
  proof
    assume "char_of (of_char x + 32 :: nat) = y"
    then have "(of_char y :: nat) = (of_char x + 32) mod 256" by (auto simp del: of_char_of simp: of_char_of [symmetric])
    with that show "(of_char y :: nat) = of_char x + 32" by (simp add: is_upper_def)
  next
    assume "(of_char y :: nat) = of_char x + 32"
    then have "char_of (of_char x + 32 :: nat) = char_of (of_char y :: nat)" by simp
    then show "char_of (of_char x + 32 :: nat) = y" by simp
  qed
  show ?thesis
  proof (cases "is_upper a"; cases "is_upper b")
    assume a: "is_upper a" and b: "is_upper b"
    then have "lower_char a = lower_char b \<longleftrightarrow> (of_char a :: nat) = of_char b"
      by (auto simp: lower_char_def Let_def is_upper_def)
    with a b show ?thesis by (auto simp: same_letter_def is_upper_def)
  next
    assume a: "is_upper a" and b: "\<not> is_upper b"
    then have "lower_char a = lower_char b \<longleftrightarrow> (of_char b :: nat) = of_char a + 32"
      using up [OF a, of b] by (auto simp: lower_char_def Let_def is_upper_def)
    with a b show ?thesis by (auto simp: same_letter_def)
  next
    assume a: "\<not> is_upper a" and b: "is_upper b"
    then have "lower_char a = lower_char b \<longleftrightarrow> (of_char a :: nat) = of_char b + 32"
      using up [OF b, of a] by (auto simp: lower_char_def Let_def is_upper_def)
    with a b show ?thesis by (auto simp: same_letter_def)
  next
    assume "\<not> is_upper a" and "\<not> is_upper b"
    then show ?thesis by (auto simp: lower_char_def Let_def is_upper_def same_letter_def)
  qed
qed

lemma map_lower_eq_iff:
  "map lower_char xs = map lower_char ys \<longleftrightarrow> list_all2 same_letter xs ys"
proof (induction xs arbitrary: ys)
  case Nil
  then show ?case by auto
next
  case (Cons x xs)
  then show ?case by (cases ys) (auto simp: lower_char_eq_iff)
qed

lemma sublist_lower_iff:
  "sublist (py_lower f) (py_lower c) \<longleftrightarrow> contains_ignoring_case f c"
proof
  assume "sublist (py_lower f) (py_lower c)"
  then obtain ps ss where "map lower_char c = ps @ map lower_char f @ ss"
    by (auto simp: sublist_def py_lower_def)
  then obtain pre rest where c: "c = pre @ rest" and "map lower_char f @ ss = map lower_char rest"
    by (auto simp: map_eq_append_conv)
  then obtain piece post where "rest = piece @ post" "map lower_char f = map lower_char piece"
    by (auto simp: append_eq_map_conv)
  with c show "contains_ignoring_case f c"
    unfolding contains_ignoring_case_def by (auto simp: map_lower_eq_iff)
next
  assume "contains_ignoring_case f c"
  then obtain pre piece post where "c = pre @ piece @ post" "map lower_char f = map lower_char piece"
    by (auto simp: contains_ignoring_case_def map_lower_eq_iff)
  then show "sublist (py_lower f) (py_lower c)"
    by (auto simp: sublist_def py_lower_def)
qed

lemma alphabet_same_letter:
  "list_all2 same_letter ''ABCDEFGHIJKLMNOPQRSTUVWXYZ'' ''abcdefghijklmnopqrstuvwxyz''"
  by (simp add: same_letter_def is_upper_def)

lemma contains_ignoring_case_examples:
  "contains_ignoring_case ''lithu'' ''Lithuania''"
  "contains_ignoring_case ''LITHU'' ''Lithuania''"
  "\<not> contains_ignoring_case ''france'' ''Lithuania''"
proof -
  have l: "py_lower ''LITHU'' = ''lithu''" by code_simp
  show "contains_ignoring_case ''lithu'' ''Lithuania''"
    "contains_ignoring_case ''LITHU'' ''Lithuania''"
    "\<not> contains_ignoring_case ''france'' ''Lithuania''"
    by (simp_all add: sublist_lower_iff [symmetric] py_lower_examples l sublist_examples)
qed

text \<open>
  C7. On ASCII text: for an entry that passes the other filters with the country name \<open>c\<close>,
  a country filter \<open>f\<close> keeps the entry exactly when \<open>c\<close> has a contiguous piece that agrees
  with \<open>f\<close> letter by letter without regard to case, and skips it otherwise; every entry that
  a non-empty filter lets through has such a country name; \<^verbatim>\<open>lithu\<close> matches
  \<^verbatim>\<open>Lithuania\<close>; and each of the 26 upper-case letters is the same letter as its lower-case
  form.
\<close>

theorem country_filter_is_case_insensitive_substring:
  "(ascii_only f \<and> ascii_only c \<and> extract_entry None s = Inr (Some r) \<and> country r = JStr c \<longrightarrow>
      extract_entry (Some f) s =
        (if contains_ignoring_case f c then Inr (Some r) else Inr None))
   \<and> (f \<noteq> [] \<and> extract_entry (Some f) s = Inr (Some r) \<longrightarrow>
      (\<exists>c. country r = JStr c
         \<and> (ascii_only f \<and> ascii_only c \<longrightarrow> contains_ignoring_case f c)))
   \<and> contains_ignoring_case ''lithu'' ''Lithuania''
   \<and> list_all2 same_letter ''ABCDEFGHIJKLMNOPQRSTUVWXYZ'' ''abcdefghijklmnopqrstuvwxyz''"
  using extract_entry_filter_match [of s r c f] extract_entry_filter_Some [of f s r]
    contains_ignoring_case_examples(1) alphabet_same_letter
  by (auto simp: sublist_lower_iff)

theorem country_filter_is_case_insensitive_substring_witness:
  "ascii_only ''LITHU'' \<and> ascii_only ''france'' \<and> ascii_only ''Lithuania''
   \<and> extract_entry None (example_entry ''online'' ''Lithuania'' ''lt1'')
     = Inr (Some (example_server ''Lithuania'' ''lt1''))
   \<and> country (example_server ''Lithuania'' ''lt1'') = JStr ''Lithuania''
   \<and> extract_entry (Some ''LITHU'') (example_entry ''online'' ''Lithuania'' ''lt1'')
     = Inr (Some (example_server ''Lithuania'' ''lt1''))
   \<and> ''LITHU'' \<noteq> []
   \<and> contains_ignoring_case ''LITHU'' ''Lithuania''
   \<and> extract_entry (Some ''france'') (example_entry ''online'' ''Lithuania'' ''lt1'') = Inr None"
proof -
  let ?s = "example_entry ''online'' ''Lithuania'' ''lt1''"
  let ?r = "example_server ''Lithuania'' ''lt1''"
  have a: "ascii_only ''LITHU''" "ascii_only ''france''" "ascii_only ''Lithuania''"
    by (simp_all add: ascii_only_def)
  have e: "extract_entry None ?s = Inr (Some ?r)" by (simp add: extract_entry_example)
  have c: "country ?r = JStr ''Lithuania''" by (simp add: example_server_def)
  from country_filter_is_case_insensitive_substring [of "''LITHU''" "''Lithuania''" ?s ?r] a e c
  have 1: "extract_entry (Some ''LITHU'') ?s = Inr (Some ?r)"
    by (simp add: contains_ignoring_case_examples)
  from country_filter_is_case_insensitive_substring [of "''france''" "''Lithuania''" ?s ?r] a e c
  have 2: "extract_entry (Some ''france'') ?s = Inr None"
    by (simp add: contains_ignoring_case_examples)
  from country_filter_is_case_insensitive_substring [of "''LITHU''" "''Lithuania''" ?s ?r] 1 a c
  have 3: "contains_ignoring_case ''LITHU'' ''Lithuania''" by auto
  from a e c 1 2 3 show ?thesis by simp
qed

subsection \<open>The private key\<close>

text \<open>
  C5, as amended. \<^verbatim>\<open>fetch_nordlynx_private_key\<close> returns the value of the field
  \<^verbatim>\<open>nordlynx_private_key\<close>, as it is and without printing, exactly when the request is
  answered with a status that is no client or server error and with a body that parses to an
  object holding a non-empty value of that field. In every other case the process ends with
  an exit status that is not zero: a request that fails raises its exception; status 401
  prints the explanation on the error stream and exits with status 1; any other status
  from 400 to 599 raises \<^verbatim>\<open>HTTPError\<close>; a body that is not JSON raises the decoding error; a
  body that parses to something that is no object raises \<^verbatim>\<open>AttributeError\<close> and nothing is
  printed; and an object without a non-empty field prints the message and the whole parsed
  body on the error stream and exits with status 1.
\<close>

theorem fetch_private_key_exits_or_returns_field:
  "(\<forall>e. credentials token = Inl e \<longrightarrow>
       fetch_nordlynx_private_key credentials token = ([], Inl e))
   \<and> (\<forall>resp. credentials token = Inr resp \<longrightarrow>
        (status_code resp = 401 \<longrightarrow>
           fetch_nordlynx_private_key credentials token =
             ([Stderr ''Unauthorized: your access token is invalid or expired.''],
              Inl (SystemExit 1)))
      \<and> (status_code resp \<noteq> 401 \<and> is_error_status (status_code resp) \<longrightarrow>
           fetch_nordlynx_private_key credentials token =
             ([], Inl (HTTPError (status_code resp))))
      \<and> (\<not> is_error_status (status_code resp) \<longrightarrow>
           (\<forall>e. json_body resp = Inl e \<longrightarrow>
              fetch_nordlynx_private_key credentials token = ([], Inl e))
         \<and> (\<forall>data. json_body resp = Inr data \<longrightarrow>
              (\<not> is_object data \<longrightarrow>
                 fetch_nordlynx_private_key credentials token = ([], Inl AttributeError))
            \<and> (is_object data \<and> \<not> has_private_key data \<longrightarrow>
                 fetch_nordlynx_private_key credentials token =
                   ([Stderr ''Could not find 'nordlynx_private_key' in credentials response.'',
                     Stderr ''Full response was:'', Stderr (py_str data)],
                    Inl (SystemExit 1)))
            \<and> (\<forall>key. field data ''nordlynx_private_key'' = Some key \<and> truthy key \<longrightarrow>
                 fetch_nordlynx_private_key credentials token = ([], Inr key)))))
   \<and> ((\<exists>key. snd (fetch_nordlynx_private_key credentials token) = Inr key) \<longleftrightarrow>
        (\<exists>resp data. credentials token = Inr resp \<and> \<not> is_error_status (status_code resp)
           \<and> json_body resp = Inr data \<and> has_private_key data))
   \<and> ((\<forall>n. credentials token \<noteq> Inl (SystemExit n))
        \<and> (\<forall>resp n. credentials token = Inr resp \<longrightarrow> json_body resp \<noteq> Inl (SystemExit n)) \<longrightarrow>
        (exit_status (snd (fetch_nordlynx_private_key credentials token)) \<noteq> 0 \<longleftrightarrow>
           (\<forall>key. snd (fetch_nordlynx_private_key credentials token) \<noteq> Inr key)))"
proof -
  have 1: "fetch_nordlynx_private_key credentials token = ([], Inl e)"
    if "credentials token = Inl e" for e
    using that by (simp add: fetch_nordlynx_private_key_def)
  have 3: "(status_code resp = 401 \<longrightarrow>
           fetch_nordlynx_private_key credentials token =
             ([Stderr ''Unauthorized: your access token is invalid or expired.''],
              Inl (SystemExit 1)))
      \<and> (status_code resp \<noteq> 401 \<and> is_error_status (status_code resp) \<longrightarrow>
           fetch_nordlynx_private_key credentials token =
             ([], Inl (HTTPError (status_code resp))))
      \<and> (\<not> is_error_status (status_code resp) \<longrightarrow>
           (\<forall>e. json_body resp = Inl e \<longrightarrow>
              fetch_nordlynx_private_key credentials token = ([], Inl e))
         \<and> (\<forall>data. json_body resp = Inr data \<longrightarrow>
              (\<not> is_object data \<longrightarrow>
                 fetch_nordlynx_private_key credentials token = ([], Inl AttributeError))
            \<and> (is_object data \<and> \<not> has_private_key data \<longrightarrow>
                 fetch_nordlynx_private_key credentials token =
                   ([Stderr ''Could not find 'nordlynx_private_key' in credentials response.'',
                     Stderr ''Full response was:'', Stderr (py_str data)],
                    Inl (SystemExit 1)))
            \<and> (\<forall>key. field data ''nordlynx_private_key'' = Some key \<and> truthy key \<longrightarrow>
                 fetch_nordlynx_private_key credentials token = ([], Inr key))))"
    if r: "credentials token = Inr resp" for resp
  proof (cases "json_body resp")
    case (Inl e)
    with r show ?thesis
      by (auto simp: fetch_nordlynx_private_key_def raise_for_status_def is_error_status_def)
  next
    case (Inr data)
    with r show ?thesis
      by (cases data)
         (auto simp: fetch_nordlynx_private_key_def raise_for_status_def is_error_status_def
            is_object_def has_private_key_def field_def split: option.splits)
  qed
  have 4: "(\<exists>key. snd (fetch_nordlynx_private_key credentials token) = Inr key) \<longleftrightarrow>
        (\<exists>resp data. credentials token = Inr resp \<and> \<not> is_error_status (status_code resp)
           \<and> json_body resp = Inr data \<and> has_private_key data)"
  proof (cases "credentials token")
    case (Inl e)
    then show ?thesis by (simp add: fetch_nordlynx_private_key_def)
  next
    case r: (Inr resp)
    show ?thesis
    proof (cases "json_body resp")
      case (Inl e)
      with r show ?thesis
        by (auto simp: fetch_nordlynx_private_key_def raise_for_status_def is_error_status_def)
    next
      case (Inr data)
      with r show ?thesis
        by (cases data)
           (auto simp: fetch_nordlynx_private_key_def raise_for_status_def is_error_status_def
              has_private_key_def field_def split: option.splits)
    qed
  qed
  have 5: "exit_status (snd (fetch_nordlynx_private_key credentials token)) \<noteq> 0 \<longleftrightarrow>
           (\<forall>key. snd (fetch_nordlynx_private_key credentials token) \<noteq> Inr key)"
    if env: "\<forall>n. credentials token \<noteq> Inl (SystemExit n)"
      "\<forall>resp n. credentials token = Inr resp \<longrightarrow> json_body resp \<noteq> Inl (SystemExit n)"
  proof (cases "credentials token")
    case (Inl e)
    with env(1) show ?thesis
      by (cases e) (simp_all add: fetch_nordlynx_private_key_def)
  next
    case r: (Inr resp)
    show ?thesis
    proof (cases "json_body resp")
      case (Inl e)
      with r env(2) show ?thesis
        by (cases e)
           (auto simp: fetch_nordlynx_private_key_def raise_for_status_def)
    next
      case (Inr data)
      with r show ?thesis
        by (cases data)
           (auto simp: fetch_nordlynx_private_key_def raise_for_status_def
              split: option.splits)
    qed
  qed
  from 1 3 4 5 show ?thesis by blast
qed

text \<open>
  The claim C5 as it is written fails for a body that parses but is no object: the parsed
  body \<^verbatim>\<open>[]\<close> lacks the field, and the process ends with \<^verbatim>\<open>AttributeError\<close> before anything
  is printed, so the parsed body does not reach the error stream.
\<close>

theorem fetch_private_key_list_body_counterexample:
  "fetch_nordlynx_private_key (\<lambda>t. Inr (example_response 200 (JArr []))) ''tok''
     = ([], Inl AttributeError)
   \<and> \<not> has_private_key (JArr [])
   \<and> \<not> is_error_status 200"
  by (simp add: fetch_nordlynx_private_key_def example_response_def raise_for_status_def
      has_private_key_def field_def is_error_status_def)

theorem fetch_private_key_exits_or_returns_field_witness:
  "fetch_nordlynx_private_key (\<lambda>t. Inl RequestException) ''tok'' = ([], Inl RequestException)
   \<and> fetch_nordlynx_private_key (\<lambda>t. Inr (example_response 401 (JObj []))) ''tok'' =
     ([Stderr ''Unauthorized: your access token is invalid or expired.''], Inl (SystemExit 1))
   \<and> fetch_nordlynx_private_key (\<lambda>t. Inr (example_response 503 (JObj []))) ''tok'' =
     ([], Inl (HTTPError 503))
   \<and> fetch_nordlynx_private_key
       (\<lambda>t. Inr \<lparr>status_code = 200, json_body = Inl JSONDecodeError\<rparr>) ''tok'' =
     ([], Inl JSONDecodeError)
   \<and> fetch_nordlynx_private_key (\<lambda>t. Inr (example_response 200 JNull)) ''tok'' =
     ([], Inl AttributeError)
   \<and> fetch_nordlynx_private_key
       (\<lambda>t. Inr (example_response 200 (JObj [(''nordlynx_private_key'', JStr [])]))) ''tok'' =
     ([Stderr ''Could not find 'nordlynx_private_key' in credentials response.'',
       Stderr ''Full response was:'',
       Stderr (''{'nordlynx_private_key': '' @ [CHR 0x27, CHR 0x27] @ ''}'')],
      Inl (SystemExit 1))
   \<and> fetch_nordlynx_private_key
       (\<lambda>t. Inr (example_response 200 (JObj [(''nordlynx_private_key'', JStr ''PRIV'')]))) ''tok'' =
     ([], Inr (JStr ''PRIV''))
   \<and> exit_status (snd (fetch_nordlynx_private_key
       (\<lambda>t. Inr (example_response 200 (JObj [(''nordlynx_private_key'', JStr ''PRIV'')]))) ''tok''))
     = 0"
proof -
  note inst = fetch_private_key_exits_or_returns_field [where token = "''tok''"]
  have a: "fetch_nordlynx_private_key (\<lambda>t. Inl RequestException) ''tok'' = ([], Inl RequestException)"
    using inst [of "\<lambda>t. Inl RequestException"] by simp
  have b: "fetch_nordlynx_private_key (\<lambda>t. Inr (example_response 401 (JObj []))) ''tok'' =
     ([Stderr ''Unauthorized: your access token is invalid or expired.''], Inl (SystemExit 1))"
    using inst [of "\<lambda>t. Inr (example_response 401 (JObj []))"]
    by (simp add: example_response_def)
  have c: "fetch_nordlynx_private_key (\<lambda>t. Inr (example_response 503 (JObj []))) ''tok'' =
     ([], Inl (HTTPError 503))"
    using inst [of "\<lambda>t. Inr (example_response 503 (JObj []))"]
    by (simp add: example_response_def is_error_status_def)
  have d: "fetch_nordlynx_private_key
       (\<lambda>t. Inr \<lparr>status_code = 200, json_body = Inl JSONDecodeError\<rparr>) ''tok'' =
     ([], Inl JSONDecodeError)"
    using inst [of "\<lambda>t. Inr \<lparr>status_code = 200, json_body = Inl JSONDecodeError\<rparr>"]
    by (simp add: is_error_status_def)
  have e: "fetch_nordlynx_private_key (\<lambda>t. Inr (example_response 200 JNull)) ''tok'' =
     ([], Inl AttributeError)"
    using inst [of "\<lambda>t. Inr (example_response 200 JNull)"]
    by (simp add: example_response_def is_error_status_def is_object_def)
  have f: "fetch_nordlynx_private_key
       (\<lambda>t. Inr (example_response 200 (JObj [(''nordlynx_private_key'', JStr [])]))) ''tok'' =
     ([Stderr ''Could not find 'nordlynx_private_key' in credentials response.'',
       Stderr ''Full response was:'',
       Stderr (''{'nordlynx_private_key': '' @ [CHR 0x27, CHR 0x27] @ ''}'')],
      Inl (SystemExit 1))"
    using inst [of "\<lambda>t. Inr (example_response 200 (JObj [(''nordlynx_private_key'', JStr [])]))"]
    by (simp add: example_response_def is_error_status_def is_object_def has_private_key_def
        field_def repr_str_def repr_char_def Let_def)
  have g: "fetch_nordlynx_private_key
       (\<lambda>t. Inr (example_response 200 (JObj [(''nordlynx_private_key'', JStr ''PRIV'')]))) ''tok'' =
     ([], Inr (JStr ''PRIV''))"
    using inst [of "\<lambda>t. Inr (example_response 200 (JObj [(''nordlynx_private_key'', JStr ''PRIV'')]))"]
    by (simp add: example_response_def is_error_status_def field_def)
  from a b c d e f g show ?thesis by simp
qed

subsection \<open>Missing country and city names\<close>

lemma is_objectE:
  assumes "is_object v"
  obtains kvs where "v = JObj kvs"
  using assms by (cases v) (simp_all add: is_object_def)

lemma find_tech_first_match:
  "first_match ''identifier'' ''wireguard_udp'' ts = Some t \<Longrightarrow>
   find_tech ts = Inr t \<and> truthy t \<and> is_object t"
proof (induction ts)
  case Nil
  then show ?case by simp
next
  case (Cons x xs)
  from Cons.prems have "is_object x" by (simp split: if_splits)
  then obtain kvs where x: "x = JObj kvs" by (rule is_objectE)
  with Cons show ?case
    by (auto simp: field_def is_object_def split: if_splits option.splits)
qed

lemma find_public_key_first_match:
  "first_match ''name'' ''public_key'' mds = Some m \<Longrightarrow>
   find_public_key mds = Inr (value_of m ''value'')"
proof (induction mds)
  case Nil
  then show ?case by simp
next
  case (Cons x xs)
  from Cons.prems have "is_object x" by (simp split: if_splits)
  then obtain kvs where x: "x = JObj kvs" by (rule is_objectE)
  with Cons show ?case
    by (auto simp: field_def value_of_def is_object_def split: if_splits option.splits)
qed

lemma extract_entry_included:
  assumes "is_online s" and "field s ''locations'' = Some (JArr (loc # locs))"
    and "location_ok loc" and "wireguard_public_key s = Some v" and "truthy v"
  shows "extract_entry cf s =
     bnd (country_rejected cf (country_value loc)) (\<lambda>rejected.
       if rejected then Inr None
       else Inr (Some (record_of s (country_value loc) (city_value loc) v)))"
proof -
  from assms(1) obtain kvs where s: "s = JObj kvs"
    and status: "map_of kvs ''status'' = Some (JStr ''online'')"
    by (cases s) (auto simp: is_online_def field_def)
  from assms(2) s have locations: "map_of kvs ''locations'' = Some (JArr (loc # locs))"
    by (simp add: field_def)
  from assms(3) obtain lkvs where loc: "loc = JObj lkvs"
    by (auto simp: location_ok_def elim: is_objectE)
  from assms(4) s obtain ts t mds m where
    techs: "map_of kvs ''technologies'' = Some (JArr ts)"
    and t: "first_match ''identifier'' ''wireguard_udp'' ts = Some t"
    and metadata: "field t ''metadata'' = Some (JArr mds)"
    and m: "first_match ''name'' ''public_key'' mds = Some m"
    and v: "field m ''value'' = Some v"
    by (auto simp: wireguard_public_key_def field_def split: option.splits json.splits)
  from find_tech_first_match [OF t] obtain tkvs where
    ft: "find_tech ts = Inr (JObj tkvs)" "truthy (JObj tkvs)" and tk: "t = JObj tkvs"
    by (auto elim: is_objectE)
  from metadata tk have md: "map_of tkvs ''metadata'' = Some (JArr mds)"
    by (simp add: field_def)
  from find_public_key_first_match [OF m] v have fm: "find_public_key mds = Inr v"
    by (simp add: value_of_def)
  have country: "bnd (dict_get loc ''country'' (JObj [])) (\<lambda>c. dict_get c ''name'' (JStr ''Unknown''))
      = Inr (country_value loc)"
    using assms(3) loc
    by (auto simp: location_ok_def country_value_def field_def is_object_def
        split: option.splits json.splits)
  have city: "bnd (dict_get loc ''country'' (JObj [])) (\<lambda>c.
        bnd (dict_get c ''city'' (JObj [])) (\<lambda>ci. dict_get ci ''name'' (JStr [])))
      = Inr (city_value loc)"
    using assms(3) loc
    by (auto simp: location_ok_def city_value_def field_def is_object_def
        split: option.splits json.splits)
  from country obtain c where c: "dict_get loc ''country'' (JObj []) = Inr c"
    "dict_get c ''name'' (JStr ''Unknown'') = Inr (country_value loc)"
    by (auto simp: bnd_Inr_iff)
  from city c(1) obtain ci where ci: "dict_get c ''city'' (JObj []) = Inr ci"
    "dict_get ci ''name'' (JStr []) = Inr (city_value loc)"
    by (auto simp: bnd_Inr_iff)
  show ?thesis
  proof (cases "country_rejected cf (country_value loc)")
    case (Inl e)
    then show ?thesis
      unfolding extract_entry_def s
      by (simp add: status locations c ci Let_def)
  next
    case (Inr rejected)
    then show ?thesis
      unfolding extract_entry_def s
      using ft(2) assms(5)
      by (cases rejected)
        (simp_all add: status locations techs c ci ft(1) md fm Let_def record_of_def
          value_of_def field_def split: option.splits)
  qed
qed

lemma extract_loop_member:
  "extract_loop cf raw = Inr servers \<Longrightarrow> s \<in> set raw \<Longrightarrow> extract_entry cf s = Inr (Some r) \<Longrightarrow>
   r \<in> set servers"
  by (induction raw arbitrary: servers) (auto simp: bnd_Inr_iff split: option.splits)

lemma extract_member:
  assumes "extract_wireguard_servers (JArr raw) cf = Inr res" and "s \<in> set raw"
    and "extract_entry cf s = Inr (Some r)"
  shows "r \<in> set res"
proof -
  from assms(1) obtain servers where l: "extract_loop cf raw = Inr servers"
    and p: "py_sort servers = Inr res"
    by (auto simp: extract_wireguard_servers_def bnd_Inr_iff)
  from p have "mset res = mset servers"
    by (auto simp: py_sort_def dest: py_sort_from_mset)
  then have "set res = set servers" by (rule mset_eq_setD)
  with extract_loop_member [OF l assms(2,3)] show ?thesis by simp
qed

lemma lacks_country_value: "lacks_country_name loc \<Longrightarrow> country_value loc = JStr ''Unknown''"
  by (auto simp: lacks_country_name_def country_value_def split: option.splits)

lemma lacks_city_value: "lacks_city_name loc \<Longrightarrow> city_value loc = JStr []"
  by (auto simp: lacks_city_name_def city_value_def split: option.splits)

lemma example_entry_at_filters:
  "is_online (example_entry_at loc)"
  "field (example_entry_at loc) ''locations'' = Some (JArr [loc])"
  "wireguard_public_key (example_entry_at loc) = Some (JStr ''ABC'')"
  "truthy (JStr ''ABC'')"
  by (simp_all add: is_online_def field_def example_entry_at_def wireguard_public_key_def
      is_object_def)

lemma record_of_example_entry_at:
  "record_of (example_entry_at loc) c ci v =
     \<lparr>server_id = JInt 2, name = JStr ''xx1'', hostname = JStr ''xx1.nordvpn.com'',
      ip = JStr ''5.6.7.8'', load = JInt 20, country = c, city = ci, public_key = v\<rparr>"
  by (simp add: record_of_def value_of_def field_def example_entry_at_def)

lemma unknown_examples:
  "contains_ignoring_case ''KNOW'' ''Unknown''" "\<not> contains_ignoring_case ''france'' ''Unknown''"
  by (simp_all add: sublist_lower_iff [symmetric] py_lower_examples sublist_examples)

text \<open>
  C10, as amended. Take a raw entry that passes the four filters: its status is
  \<^verbatim>\<open>online\<close>, its list of locations is not empty, and the first \<^verbatim>\<open>wireguard_udp\<close>
  technology carries a non-empty \<^verbatim>\<open>public_key\<close>; and let its first location be well formed,
  that is an object in which \<^verbatim>\<open>country\<close> and \<^verbatim>\<open>city\<close> are objects where they are present.
  If the first location lacks a country name, the entry is appended with the country
  \<^verbatim>\<open>Unknown\<close>, its other fields as in the entry; with a country filter (ASCII) it is appended
  exactly when \<^verbatim>\<open>Unknown\<close> contains the filter ignoring case, and skipped otherwise, without
  an error; and it is in every list that \<^verbatim>\<open>extract_wireguard_servers\<close> returns for a
  catalogue holding the entry. If the first location lacks a city name, the entry is appended
  with the city \<^verbatim>\<open>""\<close> and is in every list returned. The hypothesis on the form of the
  location is needed: see the counterexample below.
\<close>

theorem missing_country_name_defaults_to_unknown:
  assumes "is_online s" and "field s ''locations'' = Some (JArr (loc # locs))"
    and "wireguard_public_key s = Some v" and "truthy v"
    and "location_ok loc"
  shows
    "(lacks_country_name loc \<longrightarrow>
        extract_entry None s = Inr (Some (record_of s (JStr ''Unknown'') (city_value loc) v))
      \<and> (\<forall>f. ascii_only f \<longrightarrow>
           extract_entry (Some f) s =
             (if contains_ignoring_case f ''Unknown''
              then Inr (Some (record_of s (JStr ''Unknown'') (city_value loc) v))
              else Inr None))
      \<and> (\<forall>raw res. s \<in> set raw \<and> extract_wireguard_servers (JArr raw) None = Inr res \<longrightarrow>
           record_of s (JStr ''Unknown'') (city_value loc) v \<in> set res))
   \<and> (lacks_city_name loc \<longrightarrow>
        extract_entry None s = Inr (Some (record_of s (country_value loc) (JStr []) v))
      \<and> (\<forall>raw res. s \<in> set raw \<and> extract_wireguard_servers (JArr raw) None = Inr res \<longrightarrow>
           record_of s (country_value loc) (JStr []) v \<in> set res))"
proof -
  note inc = extract_entry_included [OF assms(1,2,5,3,4)]
  have none: "extract_entry None s
      = Inr (Some (record_of s (country_value loc) (city_value loc) v))"
    by (simp add: inc)
  have some: "extract_entry (Some f) s =
      (if contains_ignoring_case f ''Unknown''
       then Inr (Some (record_of s (JStr ''Unknown'') (city_value loc) v)) else Inr None)"
    if "lacks_country_name loc" for f
    by (simp add: inc [of "Some f"] lacks_country_value [OF that] country_rejected_str
        sublist_lower_iff)
  have listed: "record_of s (country_value loc) (city_value loc) v \<in> set res"
    if "s \<in> set raw" and "extract_wireguard_servers (JArr raw) None = Inr res" for raw res
    using that(2,1) none by (rule extract_member)
  show ?thesis
  proof (intro conjI impI allI)
    assume "lacks_country_name loc"
    then show "extract_entry None s
        = Inr (Some (record_of s (JStr ''Unknown'') (city_value loc) v))"
      using none by (simp add: lacks_country_value)
  next
    fix f
    assume "lacks_country_name loc"
    then show "extract_entry (Some f) s =
      (if contains_ignoring_case f ''Unknown''
       then Inr (Some (record_of s (JStr ''Unknown'') (city_value loc) v)) else Inr None)"
      by (rule some)
  next
    fix raw res
    assume "lacks_country_name loc"
      and "s \<in> set raw \<and> extract_wireguard_servers (JArr raw) None = Inr res"
    then show "record_of s (JStr ''Unknown'') (city_value loc) v \<in> set res"
      using listed [of raw res] by (simp add: lacks_country_value)
  next
    assume "lacks_city_name loc"
    then show "extract_entry None s
        = Inr (Some (record_of s (country_value loc) (JStr []) v))"
      using none by (simp add: lacks_city_value)
  next
    fix raw res
    assume "lacks_city_name loc"
      and "s \<in> set raw \<and> extract_wireguard_servers (JArr raw) None = Inr res"
    then show "record_of s (country_value loc) (JStr []) v \<in> set res"
      using listed [of raw res] by (simp add: lacks_city_value)
  qed
qed

text \<open>
  An entry whose first location is \<^verbatim>\<open>{"country": {"city": null}}\<close> passes the four filters
  and lacks a country name, but reading its city name raises \<^verbatim>\<open>AttributeError\<close>: the entry
  is not appended and the extraction returns no list.
\<close>

theorem missing_country_name_null_city_counterexample:
  "is_online (example_entry_at null_city_location)
   \<and> field (example_entry_at null_city_location) ''locations'' = Some (JArr [null_city_location])
   \<and> wireguard_public_key (example_entry_at null_city_location) = Some (JStr ''ABC'')
   \<and> truthy (JStr ''ABC'')
   \<and> lacks_country_name null_city_location
   \<and> \<not> location_ok null_city_location
   \<and> extract_entry None (example_entry_at null_city_location) = Inl AttributeError
   \<and> extract_wireguard_servers (JArr [example_entry_at null_city_location]) None
       = Inl AttributeError"
proof -
  have e: "extract_entry None (example_entry_at null_city_location) = Inl AttributeError"
    by (simp add: extract_entry_def example_entry_at_def null_city_location_def)
  have "lacks_country_name null_city_location" "\<not> location_ok null_city_location"
    by (simp_all add: lacks_country_name_def location_ok_def null_city_location_def field_def
        is_object_def)
  with e show ?thesis
    by (simp add: example_entry_at_filters extract_wireguard_servers_def)
qed

theorem missing_country_name_defaults_to_unknown_witness:
  "is_online (example_entry_at city_only_location)
   \<and> field (example_entry_at city_only_location) ''locations'' = Some (JArr [city_only_location])
   \<and> wireguard_public_key (example_entry_at city_only_location) = Some (JStr ''ABC'')
   \<and> truthy (JStr ''ABC'')
   \<and> location_ok city_only_location \<and> location_ok (JObj [])
   \<and> lacks_country_name city_only_location \<and> lacks_country_name (JObj [])
   \<and> lacks_city_name (JObj [])
   \<and> extract_entry None (example_entry_at city_only_location)
       = Inr (Some \<lparr>server_id = JInt 2, name = JStr ''xx1'', hostname = JStr ''xx1.nordvpn.com'',
           ip = JStr ''5.6.7.8'', load = JInt 20, country = JStr ''Unknown'',
           city = JStr ''Vilnius'', public_key = JStr ''ABC''\<rparr>)
   \<and> ascii_only ''KNOW'' \<and> contains_ignoring_case ''KNOW'' ''Unknown''
   \<and> extract_entry (Some ''KNOW'') (example_entry_at city_only_location)
       = Inr (Some \<lparr>server_id = JInt 2, name = JStr ''xx1'', hostname = JStr ''xx1.nordvpn.com'',
           ip = JStr ''5.6.7.8'', load = JInt 20, country = JStr ''Unknown'',
           city = JStr ''Vilnius'', public_key = JStr ''ABC''\<rparr>)
   \<and> ascii_only ''france'' \<and> \<not> contains_ignoring_case ''france'' ''Unknown''
   \<and> extract_entry (Some ''france'') (example_entry_at city_only_location) = Inr None
   \<and> extract_entry None (example_entry_at (JObj []))
       = Inr (Some \<lparr>server_id = JInt 2, name = JStr ''xx1'', hostname = JStr ''xx1.nordvpn.com'',
           ip = JStr ''5.6.7.8'', load = JInt 20, country = JStr ''Unknown'',
           city = JStr [], public_key = JStr ''ABC''\<rparr>)
   \<and> extract_wireguard_servers (JArr [example_entry_at (JObj [])]) None
       = Inr [\<lparr>server_id = JInt 2, name = JStr ''xx1'', hostname = JStr ''xx1.nordvpn.com'',
           ip = JStr ''5.6.7.8'', load = JInt 20, country = JStr ''Unknown'',
           city = JStr [], public_key = JStr ''ABC''\<rparr>]
   \<and> \<lparr>server_id = JInt 2, name = JStr ''xx1'', hostname = JStr ''xx1.nordvpn.com'',
           ip = JStr ''5.6.7.8'', load = JInt 20, country = JStr ''Unknown'',
           city = JStr [], public_key = JStr ''ABC''\<rparr>
       \<in> set [\<lparr>server_id = JInt 2, name = JStr ''xx1'', hostname = JStr ''xx1.nordvpn.com'',
           ip = JStr ''5.6.7.8'', load = JInt 20, country = JStr ''Unknown'',
           city = JStr [], public_key = JStr ''ABC''\<rparr>]"
proof -
  let ?r = "\<lambda>ci. \<lparr>server_id = JInt 2, name = JStr ''xx1'', hostname = JStr ''xx1.nordvpn.com'',
           ip = JStr ''5.6.7.8'', load = JInt 20, country = JStr ''Unknown'',
           city = JStr ci, public_key = JStr ''ABC''\<rparr>"
  have ok: "location_ok city_only_location" "location_ok (JObj [])"
    by (simp_all add: location_ok_def city_only_location_def field_def is_object_def)
  have lacks: "lacks_country_name city_only_location" "lacks_country_name (JObj [])"
    "lacks_city_name (JObj [])"
    by (simp_all add: lacks_country_name_def lacks_city_name_def city_only_location_def
        field_def)
  have defaults: "city_value city_only_location = JStr ''Vilnius''" "city_value (JObj []) = JStr []"
    "country_value (JObj []) = JStr ''Unknown''"
    by (simp_all add: city_value_def country_value_def city_only_location_def field_def)
  have a: "ascii_only ''KNOW''" "ascii_only ''france''"
    by (simp_all add: ascii_only_def)
  note city_only = missing_country_name_defaults_to_unknown
    [OF example_entry_at_filters(1,2,3,4) ok(1)]
  note empty = missing_country_name_defaults_to_unknown
    [OF example_entry_at_filters(1,2,3,4) ok(2)]
  from city_only lacks(1)
  have 1: "extract_entry None (example_entry_at city_only_location) = Inr (Some (?r ''Vilnius''))"
    by (simp add: defaults record_of_example_entry_at)
  from city_only lacks(1) a(1) unknown_examples(1)
  have 2: "extract_entry (Some ''KNOW'') (example_entry_at city_only_location)
      = Inr (Some (?r ''Vilnius''))"
    by (simp add: defaults record_of_example_entry_at)
  from city_only lacks(1) a(2) unknown_examples(2)
  have 3: "extract_entry (Some ''france'') (example_entry_at city_only_location) = Inr None"
    by simp
  from empty lacks(3)
  have 4: "extract_entry None (example_entry_at (JObj [])) = Inr (Some (?r []))"
    by (simp add: defaults record_of_example_entry_at)
  have 5: "extract_wireguard_servers (JArr [example_entry_at (JObj [])]) None = Inr [?r []]"
    by (simp add: extract_wireguard_servers_def 4 py_sort_def)
  from empty lacks(2) 5
  have 6: "?r [] \<in> set [?r []]"
    by (simp add: defaults record_of_example_entry_at)
  show ?thesis
    by (intro conjI example_entry_at_filters ok lacks 1 2 3 4 5 6 a unknown_examples)
qed

end
